theory Spec2Isabelle
  imports Complex_Main "HOL-Library.Word" "HOL-Library.Log_Nat"
begin

section \<open>The growable occupancy grid of \<open>grid_map.cpp\<close>\<close>

text \<open>
  A shallow embedding of \<open>vigir_terrain_classifier::GridMap\<close>. A C++ \<open>double\<close> is a
  value of the type \<open>double\<close> below: a finite number, an infinity or NaN, and every
  arithmetic operation of the code is the exact operation followed by the IEEE 754
  rounding to the nearest double, ties to even, as the code computes it on the usual
  platforms (no fused multiply-add, no extended precision). The sign of a zero is not
  kept: no result of the code depends on it. The \<open>float\<close> field \<open>info.resolution\<close>
  holds a double that is a \<open>float\<close> value. \<open>unsigned int\<close> is a \<open>nat\<close> and \<open>int\<close> an
  \<open>int\<close>, with the 32-bit conversions and wrap-around written out. Whatever C++ leaves
  undefined (a copy outside a buffer, a conversion of an unrepresentable value, an
  integer division by zero) is the result \<open>UndefinedBehaviour\<close>. Allocation is taken
  to succeed.
\<close>

subsection \<open>Machine integers\<close>

type_synonym int8 = "8 word"

text \<open>\<open>std::numeric_limits<int8_t>::min()\<close>, the byte of an unknown cell.\<close>

definition INT8_MIN :: int8 where
  "INT8_MIN = - 128"

datatype error = OutOfBounds | OutOfRange | UndefinedBehaviour

text \<open>Conversion \<open>int\<close> to \<open>unsigned int\<close> (modulo \<open>2^32\<close>) and back (two's complement).\<close>

definition to_unsigned :: "int \<Rightarrow> nat" where
  "to_unsigned i = nat (i mod 2 ^ 32)"

definition to_int :: "nat \<Rightarrow> int" where
  "to_int n = (let v = int (n mod 2 ^ 32) in if v < 2 ^ 31 then v else v - 2 ^ 32)"

subsection \<open>Doubles\<close>

text \<open>The nearest integer, a tie going to the even one.\<close>

definition rne :: "real \<Rightarrow> int" where
  "rne q = (let f = \<lfloor>q\<rfloor>; r = q - of_int f in
     if r < 1 / 2 then f else if 1 / 2 < r then f + 1 else if even f then f else f + 1)"

text \<open>
  The binary exponent of a positive number: the \<open>e\<close> with \<open>2^e \<le> x < 2^(e+1)\<close>,
  from the number of bits of the integer part or of the reciprocal.
\<close>

definition expo :: "real \<Rightarrow> int" where
  "expo x = (if 1 \<le> x then bitlen \<lfloor>x\<rfloor> - 1 else - bitlen (\<lceil>1 / x\<rceil> - 1))"

text \<open>
  Rounding to a binary format with \<open>p\<close> significant bits and least normal exponent
  \<open>emin\<close>, before the test for overflow: the result is the multiple of the unit in the
  last place nearest to \<open>x\<close>; below \<open>2^emin\<close> the unit is that of the subnormal numbers.
\<close>

definition round_to :: "nat \<Rightarrow> int \<Rightarrow> real \<Rightarrow> real" where
  "round_to p emin x = (if x = 0 then 0 else
     let e = max (expo \<bar>x\<bar>) emin; u = 2 powi (e - int p + 1)
     in of_int (rne (x / u)) * u)"

text \<open>
  \<open>std::numeric_limits<double>::max()\<close> and \<open>std::numeric_limits<double>::min()\<close>.
  The second is the smallest positive normal double, not the most negative one.
  \<open>FLT_MAX\<close> is the largest \<open>float\<close>.
\<close>

definition DBL_MAX :: real where
  "DBL_MAX = (2 - 1 / 2 ^ 52) * 2 ^ 1023"

definition DBL_MIN :: real where
  "DBL_MIN = 1 / 2 ^ 1022"

definition FLT_MAX :: real where
  "FLT_MAX = (2 - 1 / 2 ^ 23) * 2 ^ 127"

datatype double = Fin real | PInf | MInf | NaN

text \<open>The double that an operation with the exact result \<open>x\<close> delivers.\<close>

definition fin :: "real \<Rightarrow> double" where
  "fin x = (let y = round_to 53 (- 1022) x in
     if y < - DBL_MAX then MInf else if DBL_MAX < y then PInf else Fin y)"

text \<open>The conversion of a double to \<open>float\<close>, read again as a double.\<close>

fun double_to_float :: "double \<Rightarrow> double" where
  "double_to_float (Fin x) = (let y = round_to 24 (- 126) x in
     if y < - FLT_MAX then MInf else if FLT_MAX < y then PInf else Fin y)"
| "double_to_float d = d"

fun is_neg :: "double \<Rightarrow> bool" where
  "is_neg (Fin a) = (a < 0)"
| "is_neg MInf = True"
| "is_neg d = False"

definition d_inf :: "bool \<Rightarrow> double" where
  "d_inf neg = (if neg then MInf else PInf)"

fun d_add :: "double \<Rightarrow> double \<Rightarrow> double" where
  "d_add (Fin a) (Fin b) = fin (a + b)"
| "d_add NaN d = NaN"
| "d_add d NaN = NaN"
| "d_add PInf MInf = NaN"
| "d_add MInf PInf = NaN"
| "d_add PInf d = PInf"
| "d_add MInf d = MInf"
| "d_add d PInf = PInf"
| "d_add d MInf = MInf"

fun d_sub :: "double \<Rightarrow> double \<Rightarrow> double" where
  "d_sub (Fin a) (Fin b) = fin (a - b)"
| "d_sub NaN d = NaN"
| "d_sub d NaN = NaN"
| "d_sub PInf PInf = NaN"
| "d_sub MInf MInf = NaN"
| "d_sub PInf d = PInf"
| "d_sub MInf d = MInf"
| "d_sub d PInf = MInf"
| "d_sub d MInf = PInf"

fun d_mul :: "double \<Rightarrow> double \<Rightarrow> double" where
  "d_mul (Fin a) (Fin b) = fin (a * b)"
| "d_mul NaN d = NaN"
| "d_mul d NaN = NaN"
| "d_mul a b = (if a = Fin 0 \<or> b = Fin 0 then NaN else d_inf (is_neg a \<noteq> is_neg b))"

fun d_div :: "double \<Rightarrow> double \<Rightarrow> double" where
  "d_div (Fin a) (Fin b) =
     (if b = 0 then (if a = 0 then NaN else d_inf (a < 0)) else fin (a / b))"
| "d_div NaN d = NaN"
| "d_div d NaN = NaN"
| "d_div (Fin a) d = Fin 0"
| "d_div d (Fin b) = d_inf (is_neg d \<noteq> (b < 0))"
| "d_div a b = NaN"

text \<open>\<open><\<close> and \<open><=\<close> on doubles: false as soon as one side is NaN.\<close>

fun d_less :: "double \<Rightarrow> double \<Rightarrow> bool" where
  "d_less (Fin a) (Fin b) = (a < b)"
| "d_less NaN d = False"
| "d_less d NaN = False"
| "d_less d MInf = False"
| "d_less PInf d = False"
| "d_less a b = True"

fun d_le :: "double \<Rightarrow> double \<Rightarrow> bool" where
  "d_le (Fin a) (Fin b) = (a \<le> b)"
| "d_le NaN d = False"
| "d_le d NaN = False"
| "d_le MInf d = True"
| "d_le d PInf = True"
| "d_le a b = False"

text \<open>
  \<open>ceil\<close>, \<open>floor\<close> and C's \<open>round\<close> (to the nearest integer, halfway cases away
  from zero): the integer they give is a double, so none of them rounds.
\<close>

definition round_c :: "real \<Rightarrow> int" where
  "round_c r = (if 0 \<le> r then \<lfloor>r + 1 / 2\<rfloor> else \<lceil>r - 1 / 2\<rceil>)"

fun d_ceil :: "double \<Rightarrow> double" where
  "d_ceil (Fin a) = Fin (of_int \<lceil>a\<rceil>)"
| "d_ceil d = d"

fun d_floor :: "double \<Rightarrow> double" where
  "d_floor (Fin a) = Fin (of_int \<lfloor>a\<rfloor>)"
| "d_floor d = d"

fun d_round :: "double \<Rightarrow> double" where
  "d_round (Fin a) = Fin (of_int (round_c a))"
| "d_round d = d"

text \<open>
  Conversion of a \<open>double\<close> to \<open>int\<close> and to \<open>unsigned int\<close>: the fraction is
  discarded, and the conversion is undefined when the result is not representable in
  the target type (so for the infinities and NaN).
\<close>

definition trunc :: "real \<Rightarrow> int" where
  "trunc a = (if 0 \<le> a then \<lfloor>a\<rfloor> else \<lceil>a\<rceil>)"

fun double_to_int :: "double \<Rightarrow> error + int" where
  "double_to_int (Fin a) =
     (if - (2 ^ 31) \<le> trunc a \<and> trunc a < 2 ^ 31 then Inr (trunc a) else Inl UndefinedBehaviour)"
| "double_to_int d = Inl UndefinedBehaviour"

fun double_to_unsigned :: "double \<Rightarrow> error + nat" where
  "double_to_unsigned (Fin a) =
     (if 0 \<le> trunc a \<and> trunc a < 2 ^ 32 then Inr (nat (trunc a)) else Inl UndefinedBehaviour)"
| "double_to_unsigned d = Inl UndefinedBehaviour"

text \<open>\<open>static_cast<double>\<close> of an \<open>int\<close>: exact.\<close>

definition int_to_double :: "int \<Rightarrow> double" where
  "int_to_double k = Fin (of_int k)"

text \<open>
  \<open>std::max(a, b)\<close> is \<open>(a < b) ? b : a\<close> and \<open>std::min(a, b)\<close> is
  \<open>(b < a) ? b : a\<close>: with a NaN on either side the comparison is false and \<open>a\<close> is
  returned.
\<close>

definition std_max :: "double \<Rightarrow> double \<Rightarrow> double" where
  "std_max a b = (if d_less a b then b else a)"

definition std_min :: "double \<Rightarrow> double \<Rightarrow> double" where
  "std_min a b = (if d_less b a then b else a)"

text \<open>
  Modelled from the spec: \<open>pceil\<close> and \<open>pfloor\<close> are helpers of another package
  (\<open>vigir_footstep_planning\<close>); the spec says that \<open>pceil(value, step)\<close> rounds up to
  the nearest multiple of \<open>step\<close>, that \<open>pfloor\<close> rounds down, and that both round
  negative values in the right direction. On doubles this is \<open>ceil(x / prec) * prec\<close>
  and \<open>floor(x / prec) * prec\<close>; with a zero step the quotient is infinite or NaN and
  its product with zero is NaN.
\<close>

definition pceil :: "double \<Rightarrow> double \<Rightarrow> double" where
  "pceil x prec = d_mul (d_ceil (d_div x prec)) prec"

definition pfloor :: "double \<Rightarrow> double \<Rightarrow> double" where
  "pfloor x prec = d_mul (d_floor (d_div x prec)) prec"

subsection \<open>Messages and the grid\<close>

text \<open>\<open>geometry_msgs::Vector3\<close> and \<open>geometry_msgs::Point\<close>: three doubles.\<close>

record Vector3 =
  vx :: double
  vy :: double
  vz :: double

text \<open>
  \<open>nav_msgs::OccupancyGrid\<close>: the header fields the code touches, \<open>info\<close> (resolution,
  width, height, position of the origin) and the cells, row by row.
\<close>

record OccupancyGrid =
  header_frame_id :: string
  header_seq :: nat
  resolution :: double
  width :: nat
  height :: nat
  origin :: Vector3
  data :: "int8 list"

text \<open>A message as \<open>new nav_msgs::OccupancyGrid()\<close> makes it: every number zero, no cells.\<close>

definition Vector3_zero :: Vector3 where
  "Vector3_zero = \<lparr>vx = Fin 0, vy = Fin 0, vz = Fin 0\<rparr>"

definition OccupancyGrid_new :: OccupancyGrid where
  "OccupancyGrid_new =
     \<lparr>header_frame_id = [], header_seq = 0, resolution = Fin 0, width = 0, height = 0,
      origin = Vector3_zero, data = []\<rparr>"

record GridMap =
  grid_map :: OccupancyGrid
  min_vec :: Vector3
  max_vec :: Vector3
  min_expansion_size :: double

subsection \<open>Construction, reset, access\<close>

definition clear :: "GridMap \<Rightarrow> GridMap" where
  "clear g =
     g\<lparr>grid_map := (grid_map g)\<lparr>data := [], header_seq := 0\<rparr>,
       min_vec := \<lparr>vx = Fin DBL_MAX, vy = Fin DBL_MAX, vz = Fin DBL_MAX\<rparr>,
       max_vec := \<lparr>vx = Fin DBL_MIN, vy = Fin DBL_MIN, vz = Fin DBL_MIN\<rparr>\<rparr>"

definition fromMsg :: "GridMap \<Rightarrow> OccupancyGrid \<Rightarrow> GridMap" where
  "fromMsg g m =
     g\<lparr>grid_map := m,
       min_vec := \<lparr>vx = vx (origin m), vy = vy (origin m), vz = vz (origin m)\<rparr>\<rparr>"

definition toMsg :: "GridMap \<Rightarrow> OccupancyGrid" where
  "toMsg g = grid_map g"

text \<open>
  \<open>GridMap(frame_id, resolution, min_expansion_size)\<close>; \<open>frame_id\<close> stands for the
  identifier after \<open>strip_const\<close>, a helper outside this repository. The message
  stores the resolution as a \<open>float\<close>; the expansion size is rounded with the
  \<open>double\<close> argument.
\<close>

definition GridMap_create :: "string \<Rightarrow> double \<Rightarrow> double \<Rightarrow> GridMap" where
  "GridMap_create frame_id res mes =
     clear
       \<lparr>grid_map =
          OccupancyGrid_new
            \<lparr>header_frame_id := frame_id, header_seq := 0, resolution := double_to_float res,
             width := 0, height := 0, origin := \<lparr>vx = Fin 0, vy = Fin 0, vz = Fin 0\<rparr>,
             data := []\<rparr>,
        min_vec = Vector3_zero, max_vec = Vector3_zero,
        min_expansion_size = pceil mes res\<rparr>"

text \<open>
  \<open>GridMap(map, min_expansion_size)\<close>: the expansion size is rounded with the
  resolution of the message just allocated, before \<open>fromMsg\<close> copies \<open>map\<close>.
\<close>

definition GridMap_load :: "OccupancyGrid \<Rightarrow> double \<Rightarrow> GridMap" where
  "GridMap_load m mes =
     fromMsg
       (clear
          \<lparr>grid_map = OccupancyGrid_new, min_vec = Vector3_zero, max_vec = Vector3_zero,
           min_expansion_size = pceil mes (resolution OccupancyGrid_new)\<rparr>)
       m"

definition empty_grid :: "GridMap \<Rightarrow> bool" where
  "empty_grid g = (data (grid_map g) = [])"

text \<open>\<open>at\<close> is \<open>std::vector::at\<close>: it throws outside the buffer.\<close>

definition at_idx :: "GridMap \<Rightarrow> int \<Rightarrow> error + int8" where
  "at_idx g idx =
     (if 0 \<le> idx \<and> nat idx < length (data (grid_map g))
      then Inr (data (grid_map g) ! nat idx) else Inl OutOfRange)"

subsection \<open>Coordinate conversion\<close>

text \<open>The range test shared by the conversions; \<open>True\<close> is the failing branch.\<close>

definition outside :: "OccupancyGrid \<Rightarrow> int \<Rightarrow> int \<Rightarrow> bool" where
  "outside m map_x map_y =
     (map_x < 0 \<or> width m \<le> to_unsigned map_x \<or> map_y < 0 \<or> height m \<le> to_unsigned map_y)"

definition getGridMapCoords :: "OccupancyGrid \<Rightarrow> double \<Rightarrow> double \<Rightarrow> error + int \<times> int" where
  "getGridMapCoords m x y =
     (case double_to_int (d_round (d_div (d_sub x (vx (origin m))) (resolution m))) of
        Inl e \<Rightarrow> Inl e
      | Inr map_x \<Rightarrow>
          (case double_to_int (d_round (d_div (d_sub y (vy (origin m))) (resolution m))) of
             Inl e \<Rightarrow> Inl e
           | Inr map_y \<Rightarrow>
               if outside m map_x map_y then Inl OutOfBounds else Inr (map_x, map_y)))"

definition getGridMapCoords_idx :: "OccupancyGrid \<Rightarrow> int \<Rightarrow> error + int \<times> int" where
  "getGridMapCoords_idx m idx =
     (if width m = 0 then Inl UndefinedBehaviour
      else
        let map_x = to_int (to_unsigned idx mod width m);
            map_y = to_int (to_unsigned idx div width m)
        in if outside m map_x map_y then Inl OutOfBounds else Inr (map_x, map_y))"

definition getGridMapIndex_coords :: "OccupancyGrid \<Rightarrow> int \<Rightarrow> int \<Rightarrow> error + int" where
  "getGridMapIndex_coords m map_x map_y =
     (if outside m map_x map_y then Inl OutOfBounds
      else Inr (to_int (to_unsigned map_x + to_unsigned map_y * width m)))"

definition getGridMapIndex :: "OccupancyGrid \<Rightarrow> double \<Rightarrow> double \<Rightarrow> error + int" where
  "getGridMapIndex m x y =
     (case getGridMapCoords m x y of
        Inl e \<Rightarrow> Inl e
      | Inr (map_x, map_y) \<Rightarrow> getGridMapIndex_coords m map_x map_y)"

definition getGridMapWorldCoords ::
  "OccupancyGrid \<Rightarrow> int \<Rightarrow> int \<Rightarrow> error + double \<times> double" where
  "getGridMapWorldCoords m map_x map_y =
     Inr (d_add (d_mul (int_to_double map_x) (resolution m)) (vx (origin m)),
          d_add (d_mul (int_to_double map_y) (resolution m)) (vy (origin m)))"

definition getGridMapWorldCoords_idx :: "OccupancyGrid \<Rightarrow> int \<Rightarrow> error + double \<times> double" where
  "getGridMapWorldCoords_idx m idx =
     (case getGridMapCoords_idx m idx of
        Inl e \<Rightarrow> Inl e
      | Inr (map_x, map_y) \<Rightarrow> getGridMapWorldCoords m map_x map_y)"

subsection \<open>Resize\<close>

text \<open>
  \<open>memcpy(&dst[di], &src[si], n)\<close> on two vectors: undefined when a range leaves its
  buffer (a negative \<open>int\<close> index becomes a huge \<open>size_t\<close>). A copy of no bytes
  changes nothing.
\<close>

definition memcpy :: "int8 list \<Rightarrow> int \<Rightarrow> int8 list \<Rightarrow> int \<Rightarrow> nat \<Rightarrow> error + int8 list" where
  "memcpy dst di src si n =
     (if n = 0 then Inr dst
      else if di < 0 \<or> si < 0 \<or> length dst < nat di + n \<or> length src < nat si + n
        then Inl UndefinedBehaviour
      else Inr (take (nat di) dst @ take n (drop (nat si) src) @ drop (nat di + n) dst))"

text \<open>
  The row loop of \<open>resize\<close>; the first argument counts the rows still to copy. The
  \<open>int\<close> indices advance by an \<open>unsigned int\<close>, so the sums are formed modulo \<open>2^32\<close>.
\<close>

fun copy_rows ::
  "nat \<Rightarrow> nat \<Rightarrow> nat \<Rightarrow> int8 list \<Rightarrow> int \<Rightarrow> int \<Rightarrow> int8 list \<Rightarrow> error + int8 list" where
  "copy_rows 0 old_width new_width old old_idx new_idx new = Inr new"
| "copy_rows (Suc rows) old_width new_width old old_idx new_idx new =
     (case memcpy new new_idx old old_idx old_width of
        Inl e \<Rightarrow> Inl e
      | Inr new' \<Rightarrow>
          copy_rows rows old_width new_width old
            (to_int (to_unsigned old_idx + old_width))
            (to_int (to_unsigned new_idx + new_width)) new')"

text \<open>
  The test "check if resize is needed (enlargement only)": \<open>min.x >= this->min.x\<close>
  and so on.
\<close>

definition covers :: "GridMap \<Rightarrow> Vector3 \<Rightarrow> Vector3 \<Rightarrow> bool" where
  "covers g mn mx =
     (d_le (vx (min_vec g)) (vx mn) \<and> d_le (vy (min_vec g)) (vy mn) \<and>
      d_le (vx mx) (vx (max_vec g)) \<and> d_le (vy mx) (vy (max_vec g)))"

text \<open>
  The amount added to an edge in lines 125 to 131:
  \<open>std::max(pceil(deficit, res), min_expansion_size)\<close>.
\<close>

definition expansion :: "GridMap \<Rightarrow> double \<Rightarrow> double" where
  "expansion g deficit =
     std_max (pceil deficit (resolution (grid_map g))) (min_expansion_size g)"

text \<open>The new \<open>this->min\<close> and \<open>this->max\<close> (lines 115 to 132).\<close>

definition new_min :: "GridMap \<Rightarrow> Vector3 \<Rightarrow> Vector3" where
  "new_min g mn =
     (let res = resolution (grid_map g); m = min_vec g
      in if data (grid_map g) = []
         then m\<lparr>vx := pfloor (vx mn) res, vy := pfloor (vy mn) res\<rparr>
         else m\<lparr>vx := (if d_less (vx mn) (vx m)
                        then d_sub (vx m) (expansion g (d_sub (vx m) (vx mn))) else vx m),
                vy := (if d_less (vy mn) (vy m)
                        then d_sub (vy m) (expansion g (d_sub (vy m) (vy mn))) else vy m)\<rparr>)"

definition new_max :: "GridMap \<Rightarrow> Vector3 \<Rightarrow> Vector3" where
  "new_max g mx =
     (let res = resolution (grid_map g); m = max_vec g
      in if data (grid_map g) = []
         then m\<lparr>vx := pceil (vx mx) res, vy := pceil (vy mx) res\<rparr>
         else m\<lparr>vx := (if d_less (vx m) (vx mx)
                        then d_add (vx m) (expansion g (d_sub (vx mx) (vx m))) else vx m),
                vy := (if d_less (vy m) (vy mx)
                        then d_add (vy m) (expansion g (d_sub (vy mx) (vy m))) else vy m)\<rparr>)"

text \<open>
  The message set up in lines 138 to 153: header and resolution of the old one, the
  new size and origin, every cell unknown. The product of the sizes is an
  \<open>unsigned int\<close>.
\<close>

definition new_grid :: "OccupancyGrid \<Rightarrow> Vector3 \<Rightarrow> nat \<Rightarrow> nat \<Rightarrow> OccupancyGrid" where
  "new_grid old bmin w h =
     \<lparr>header_frame_id = header_frame_id old, header_seq = header_seq old,
      resolution = resolution old, width = w, height = h,
      origin = \<lparr>vx = vx bmin, vy = vy bmin, vz = vz (origin old)\<rparr>,
      data = replicate ((w * h) mod 2 ^ 32) INT8_MIN\<rparr>"

text \<open>
  Lines 155 to 157: the index of the old origin in the new message. The result of
  \<open>getGridMapIndex\<close> is ignored, so after a failure \<open>new_idx\<close> is still 0.
\<close>

definition start_index :: "OccupancyGrid \<Rightarrow> OccupancyGrid \<Rightarrow> error + int" where
  "start_index new old =
     (case getGridMapIndex new (vx (origin old)) (vy (origin old)) of
        Inr i \<Rightarrow> Inr i
      | Inl UndefinedBehaviour \<Rightarrow> Inl UndefinedBehaviour
      | Inl e \<Rightarrow> Inr 0)"

text \<open>
  Lines 146 and 147: \<open>static_cast<unsigned int>(ceil((max - min) / res)) + 1\<close>.
\<close>

definition new_size :: "double \<Rightarrow> double \<Rightarrow> double \<Rightarrow> error + nat" where
  "new_size hi lo res =
     (case double_to_unsigned (d_ceil (d_div (d_sub hi lo) res)) of
        Inl e \<Rightarrow> Inl e
      | Inr n \<Rightarrow> Inr ((n + 1) mod 2 ^ 32))"

text \<open>Lines 134 to 166, once the new bounds and sizes are known.\<close>

definition reorganize ::
  "GridMap \<Rightarrow> Vector3 \<Rightarrow> Vector3 \<Rightarrow> nat \<Rightarrow> nat \<Rightarrow> error + GridMap" where
  "reorganize g bmin bmax w h =
     (let old = grid_map g; new = new_grid old bmin w h
      in case start_index new old of
           Inl e \<Rightarrow> Inl e
         | Inr new_idx \<Rightarrow>
             (case copy_rows (height old) (width old) (width new) (data old) 0 new_idx (data new) of
                Inl e \<Rightarrow> Inl e
              | Inr d \<Rightarrow>
                  Inr (g\<lparr>grid_map := (new\<lparr>data := d\<rparr>), min_vec := bmin, max_vec := bmax\<rparr>)))"

definition resize :: "GridMap \<Rightarrow> Vector3 \<Rightarrow> Vector3 \<Rightarrow> error + GridMap" where
  "resize g mn mx =
     (if covers g mn mx then Inr g
      else
        let res = resolution (grid_map g); bmin = new_min g mn; bmax = new_max g mx
        in case new_size (vx bmax) (vx bmin) res of
             Inl e \<Rightarrow> Inl e
           | Inr w \<Rightarrow>
               (case new_size (vy bmax) (vy bmin) res of
                  Inl e \<Rightarrow> Inl e
                | Inr h \<Rightarrow> reorganize g bmin bmax w h))"

text \<open>
  \<open>getPointCloudBoundary\<close> and \<open>resize(cloud)\<close>; a point is its three coordinates,
  \<open>float\<close>s converted to \<open>double\<close>.
\<close>

definition getPointCloudBoundary ::
  "(double \<times> double \<times> double) list \<Rightarrow> Vector3 \<times> Vector3" where
  "getPointCloudBoundary cloud =
     fold (\<lambda>(px, py, pz) (mn, mx).
            (\<lparr>vx = std_min (vx mn) px, vy = std_min (vy mn) py, vz = std_min (vz mn) pz\<rparr>,
             \<lparr>vx = std_max (vx mx) px, vy = std_max (vy mx) py, vz = std_max (vz mx) pz\<rparr>))
       cloud
       (\<lparr>vx = Fin DBL_MAX, vy = Fin DBL_MAX, vz = Fin DBL_MAX\<rparr>,
        \<lparr>vx = Fin DBL_MIN, vy = Fin DBL_MIN, vz = Fin DBL_MIN\<rparr>)"

definition resize_cloud ::
  "GridMap \<Rightarrow> (double \<times> double \<times> double) list \<Rightarrow> error + GridMap" where
  "resize_cloud g cloud =
     (if cloud = [] then Inr g
      else case getPointCloudBoundary cloud of (update_min, update_max) \<Rightarrow>
             resize g update_min update_max)"

subsection \<open>The size invariant\<close>

definition size_inv :: "GridMap \<Rightarrow> bool" where
  "size_inv g = (width (grid_map g) * height (grid_map g) = length (data (grid_map g)))"

subsection \<open>Concrete grids\<close>

text \<open>A grid of three columns and two rows, cells of edge one half, origin \<open>(1, -1)\<close>.\<close>

definition small_grid :: OccupancyGrid where
  "small_grid =
     \<lparr>header_frame_id = ''map'', header_seq = 0, resolution = Fin (1 / 2), width = 3, height = 2,
      origin = \<lparr>vx = Fin 1, vy = Fin (- 1), vz = Fin 0\<rparr>, data = [1, 2, 3, 4, 5, 6]\<rparr>"

text \<open>
  A geometry of 65537 columns and 65536 rows: more cells than an \<open>unsigned int\<close> counts.
  The conversions are static functions of the geometry and do not read the cells.
\<close>

definition wide_msg :: OccupancyGrid where
  "wide_msg =
     \<lparr>header_frame_id = ''map'', header_seq = 0, resolution = Fin 1, width = 65537,
      height = 65536, origin = \<lparr>vx = Fin 0, vy = Fin 0, vz = Fin 0\<rparr>, data = []\<rparr>"

text \<open>
  The grid that \<open>GridMap("map", 1, 0)\<close> becomes when it is resized to the box from
  \<open>(0, 0)\<close> to \<open>(1, 1)\<close>.
\<close>

definition unit_point :: Vector3 where
  "unit_point = \<lparr>vx = Fin 1, vy = Fin 1, vz = Fin 0\<rparr>"

definition unit_grid :: GridMap where
  "unit_grid =
     \<lparr>grid_map =
        \<lparr>header_frame_id = ''map'', header_seq = 0, resolution = Fin 1, width = 2, height = 2,
         origin = \<lparr>vx = Fin 0, vy = Fin 0, vz = Fin 0\<rparr>,
         data = [INT8_MIN, INT8_MIN, INT8_MIN, INT8_MIN]\<rparr>,
      min_vec = \<lparr>vx = Fin 0, vy = Fin 0, vz = Fin DBL_MAX\<rparr>,
      max_vec = \<lparr>vx = Fin 1, vy = Fin 1, vz = Fin DBL_MIN\<rparr>,
      min_expansion_size = Fin 0\<rparr>"

text \<open>
  A message of one cell of value 7 at the world point \<open>(10, 10)\<close>, and the grid that
  \<open>GridMap(far_msg, 0)\<close> becomes when it is resized to the single point \<open>(0, 0)\<close>.
\<close>

definition far_msg :: OccupancyGrid where
  "far_msg =
     \<lparr>header_frame_id = ''map'', header_seq = 0, resolution = Fin 1, width = 1, height = 1,
      origin = \<lparr>vx = Fin 10, vy = Fin 10, vz = Fin 0\<rparr>, data = [7]\<rparr>"

definition far_grid_resized :: GridMap where
  "far_grid_resized =
     \<lparr>grid_map =
        \<lparr>header_frame_id = ''map'', header_seq = 0, resolution = Fin 1, width = 2, height = 2,
         origin = \<lparr>vx = Fin 0, vy = Fin 0, vz = Fin 0\<rparr>,
         data = [7, INT8_MIN, INT8_MIN, INT8_MIN]\<rparr>,
      min_vec = \<lparr>vx = Fin 0, vy = Fin 0, vz = Fin 0\<rparr>,
      max_vec = \<lparr>vx = Fin DBL_MIN, vy = Fin DBL_MIN, vz = Fin DBL_MIN\<rparr>,
      min_expansion_size = NaN\<rparr>"

text \<open>
  A grid of two by two cells with a minimum expansion size of two cells, and what it
  becomes when it is resized to reach \<open>x = 3/2\<close>.
\<close>

definition padded_grid :: GridMap where
  "padded_grid =
     \<lparr>grid_map =
        \<lparr>header_frame_id = ''map'', header_seq = 0, resolution = Fin 1, width = 2, height = 2,
         origin = \<lparr>vx = Fin 0, vy = Fin 0, vz = Fin 0\<rparr>, data = [1, 2, 3, 4]\<rparr>,
      min_vec = \<lparr>vx = Fin 0, vy = Fin 0, vz = Fin DBL_MAX\<rparr>,
      max_vec = \<lparr>vx = Fin 1, vy = Fin 1, vz = Fin DBL_MIN\<rparr>,
      min_expansion_size = Fin 2\<rparr>"

definition padded_grown :: GridMap where
  "padded_grown =
     \<lparr>grid_map =
        \<lparr>header_frame_id = ''map'', header_seq = 0, resolution = Fin 1, width = 4, height = 2,
         origin = \<lparr>vx = Fin 0, vy = Fin 0, vz = Fin 0\<rparr>,
         data = [1, 2, INT8_MIN, INT8_MIN, 3, 4, INT8_MIN, INT8_MIN]\<rparr>,
      min_vec = \<lparr>vx = Fin 0, vy = Fin 0, vz = Fin DBL_MAX\<rparr>,
      max_vec = \<lparr>vx = Fin 3, vy = Fin 1, vz = Fin DBL_MIN\<rparr>,
      min_expansion_size = Fin 2\<rparr>"

text \<open>
  The grid that \<open>GridMap("map", 1, 0)\<close> becomes when it is resized to the box from
  \<open>(4, 0)\<close> to \<open>(5, 1)\<close> and its four cells are written, a number \<open>tiny\<close> far
  below the spacing of the doubles near 4, and what the grid becomes when it is
  resized to reach \<open>x = -tiny\<close>.
\<close>

definition tiny :: real where
  "tiny = 1 / 2 ^ 60"

definition shifted_grid :: GridMap where
  "shifted_grid =
     \<lparr>grid_map =
        \<lparr>header_frame_id = ''map'', header_seq = 0, resolution = Fin 1, width = 2, height = 2,
         origin = \<lparr>vx = Fin 4, vy = Fin 0, vz = Fin 0\<rparr>, data = [1, 2, 3, 4]\<rparr>,
      min_vec = \<lparr>vx = Fin 4, vy = Fin 0, vz = Fin DBL_MAX\<rparr>,
      max_vec = \<lparr>vx = Fin 5, vy = Fin 1, vz = Fin DBL_MIN\<rparr>,
      min_expansion_size = Fin 0\<rparr>"

definition shifted_grown :: GridMap where
  "shifted_grown =
     \<lparr>grid_map =
        \<lparr>header_frame_id = ''map'', header_seq = 0, resolution = Fin 1, width = 6, height = 2,
         origin = \<lparr>vx = Fin 0, vy = Fin 0, vz = Fin 0\<rparr>,
         data = [INT8_MIN, INT8_MIN, INT8_MIN, INT8_MIN, 1, 2,
                 INT8_MIN, INT8_MIN, INT8_MIN, INT8_MIN, 3, 4]\<rparr>,
      min_vec = \<lparr>vx = Fin 0, vy = Fin 0, vz = Fin DBL_MAX\<rparr>,
      max_vec = \<lparr>vx = Fin 5, vy = Fin 1, vz = Fin DBL_MIN\<rparr>,
      min_expansion_size = Fin 0\<rparr>"

text \<open>
  The doubles nearest to 0.05 and to 0.1, the \<open>float\<close> nearest to 0.05, the grid that
  \<open>GridMap("map", 0.05, 0.1)\<close> becomes when it is resized to the single point
  \<open>(0, 0)\<close> and its cell is written, and what that grid becomes when it is resized to
  reach \<open>x = 1/16\<close>.
\<close>

definition dbl_0_05 :: real where
  "dbl_0_05 = 3602879701896397 / 2 ^ 56"

definition dbl_0_1 :: real where
  "dbl_0_1 = 3602879701896397 / 2 ^ 55"

definition flt_0_05 :: real where
  "flt_0_05 = 13421773 / 2 ^ 28"

definition fine_grid :: GridMap where
  "fine_grid =
     \<lparr>grid_map =
        \<lparr>header_frame_id = ''map'', header_seq = 0, resolution = Fin flt_0_05, width = 1,
         height = 1, origin = \<lparr>vx = Fin 0, vy = Fin 0, vz = Fin 0\<rparr>, data = [5]\<rparr>,
      min_vec = \<lparr>vx = Fin 0, vy = Fin 0, vz = Fin DBL_MAX\<rparr>,
      max_vec = \<lparr>vx = Fin 0, vy = Fin 0, vz = Fin DBL_MIN\<rparr>,
      min_expansion_size = Fin dbl_0_1\<rparr>"

definition fine_grown :: GridMap where
  "fine_grown =
     \<lparr>grid_map =
        \<lparr>header_frame_id = ''map'', header_seq = 0, resolution = Fin flt_0_05, width = 3,
         height = 1, origin = \<lparr>vx = Fin 0, vy = Fin 0, vz = Fin 0\<rparr>,
         data = [5, INT8_MIN, INT8_MIN]\<rparr>,
      min_vec = \<lparr>vx = Fin 0, vy = Fin 0, vz = Fin DBL_MAX\<rparr>,
      max_vec = \<lparr>vx = Fin (2 * flt_0_05), vy = Fin 0, vz = Fin DBL_MIN\<rparr>,
      min_expansion_size = Fin dbl_0_1\<rparr>"

text \<open>
  The amount by which an edge grows as the specification states it,
  \<open>max(pceil(deficit, resolution), min_expansion_size)\<close>, on exact numbers.
\<close>

definition spec_expansion :: "real \<Rightarrow> real \<Rightarrow> real \<Rightarrow> real" where
  "spec_expansion deficit res mes = max (of_int \<lceil>deficit / res\<rceil> * res) mes"




section \<open>Conversions between machine integers\<close>

lemma to_unsigned_nonneg: "0 \<le> i \<Longrightarrow> i < 2 ^ 32 \<Longrightarrow> to_unsigned i = nat i"
  by (simp add: to_unsigned_def)

lemma to_unsigned_neg:
  assumes "- (2 ^ 32) \<le> i" and "i < 0"
  shows "to_unsigned i = nat (i + 2 ^ 32)"
proof -
  have "i mod 2 ^ 32 = (i + 2 ^ 32) mod 2 ^ 32"
    by simp
  also have "\<dots> = i + 2 ^ 32"
    using assms by (intro mod_pos_pos_trivial) auto
  finally show ?thesis
    by (simp add: to_unsigned_def)
qed

lemma to_int_small: "n < 2 ^ 31 \<Longrightarrow> to_int n = int n"
  by (simp add: to_int_def Let_def)

lemma to_int_big: "2 ^ 31 \<le> n \<Longrightarrow> n < 2 ^ 32 \<Longrightarrow> to_int n = int n - 2 ^ 32"
  by (simp add: to_int_def Let_def)


section \<open>Rounding\<close>

lemma rne_of_int: "rne (of_int k) = k"
  by (simp add: rne_def)

lemma powi_powr: "(2::real) powi k = 2 powr (of_int k)"
  by (simp add: powr_real_of_int')

lemma bitlen_pos: "0 < n \<Longrightarrow> 1 \<le> bitlen n"
  using bitlen_nonneg [of n] bitlen_eq_zero_iff [of n] by linarith

lemma powi_nat: "0 \<le> k \<Longrightarrow> (2::real) powi k = 2 ^ nat k"
  by (simp add: power_int_def)

lemma powi_neg_nat: "0 \<le> k \<Longrightarrow> (2::real) powi (- k) = 1 / 2 ^ nat k"
  by (simp add: power_int_minus powi_nat divide_inverse)

text \<open>The exponent is the one that brackets the number.\<close>

lemma expo_bounds:
  assumes "0 < x"
  shows "2 powi (expo x) \<le> x \<and> x < 2 powi (expo x + 1)"
proof (cases "1 \<le> x")
  case True
  define n where "n = \<lfloor>x\<rfloor>"
  define b where "b = bitlen n"
  have n: "0 < n" using True by (simp add: n_def)
  have b1: "1 \<le> b" using n unfolding b_def by (rule bitlen_pos)
  from bitlen_bounds [OF n] have lo: "2 ^ nat (b - 1) \<le> n" and hi: "n < 2 ^ nat b"
    by (simp_all add: b_def)
  have e: "expo x = b - 1" using True by (simp add: expo_def n_def b_def)
  have "(2::real) ^ nat (b - 1) \<le> of_int n" using lo by simp
  moreover have "of_int n \<le> x" by (simp add: n_def)
  ultimately have "(2::real) ^ nat (b - 1) \<le> x" by linarith
  then have l: "2 powi (b - 1) \<le> x" using b1 by (simp add: powi_nat)
  have "n + 1 \<le> 2 ^ nat b" using hi by simp
  then have "(of_int (n + 1) :: real) \<le> 2 ^ nat b"
    by (simp only: of_int_le_numeral_power_cancel_iff)
  then have "of_int n + 1 \<le> (2::real) ^ nat b" by simp
  moreover have "x < of_int n + 1" by (simp add: n_def)
  ultimately have "x < (2::real) ^ nat b" by linarith
  then have h: "x < 2 powi b" using b1 by (simp add: powi_nat)
  show ?thesis using l h by (simp add: e)
next
  case False
  define c where "c = \<lceil>1 / x\<rceil>"
  define b where "b = bitlen (c - 1)"
  have y: "1 < 1 / x" using False assms by simp
  then have "1 < c" unfolding c_def by (simp add: less_ceiling_iff)
  then have m: "0 < c - 1" by simp
  have b1: "1 \<le> b" using m unfolding b_def by (rule bitlen_pos)
  from bitlen_bounds [OF m] have lo: "2 ^ nat (b - 1) \<le> c - 1" and hi: "c - 1 < 2 ^ nat b"
    by (simp_all add: b_def)
  have e: "expo x = - b" using False by (simp add: expo_def c_def b_def)
  have "c \<le> 2 ^ nat b" using hi by simp
  then have "(of_int c :: real) \<le> 2 ^ nat b" by simp
  moreover have "1 / x \<le> of_int c" by (simp add: c_def)
  ultimately have "1 / x \<le> 2 ^ nat b" by linarith
  then have "1 \<le> 2 ^ nat b * x" using assms by (simp add: divide_le_eq)
  then have "1 / 2 ^ nat b \<le> x" by (simp add: divide_le_eq mult.commute)
  then have l: "2 powi (- b) \<le> x" using b1 by (simp add: powi_neg_nat)
  have "(2::real) ^ nat (b - 1) \<le> of_int (c - 1)"
    using lo by (simp only: numeral_power_le_of_int_cancel_iff)
  moreover have "of_int (c - 1) < 1 / x"
    unfolding c_def using ceiling_correct [of "1 / x"] by simp
  ultimately have "2 ^ nat (b - 1) < 1 / x" by linarith
  then have "2 ^ nat (b - 1) * x < 1" using assms by (simp add: less_divide_eq)
  then have "x < 1 / 2 ^ nat (b - 1)" by (simp add: less_divide_eq mult.commute)
  moreover have "(2::real) powi (- (b - 1)) = 1 / 2 ^ nat (b - 1)"
    using b1 by (intro powi_neg_nat) simp
  ultimately have h: "x < 2 powi (- (b - 1))" by simp
  show ?thesis using l h by (simp add: e)
qed

lemma expo_eq:
  assumes "2 powi e \<le> x" and "x < 2 powi (e + 1)"
  shows "expo x = e"
proof -
  have "(0::real) < 2 powi e" by simp
  then have pos: "0 < x" using assms(1) by linarith
  from expo_bounds [OF pos] have l: "2 powi (expo x) \<le> x" and h: "x < 2 powi (expo x + 1)"
    by simp_all
  have "(2::real) powi e < 2 powi (expo x + 1)" using assms(1) h by linarith
  then have a: "e < expo x + 1" by (simp add: powi_powr)
  have "(2::real) powi (expo x) < 2 powi (e + 1)" using assms(2) l by linarith
  then have b: "expo x < e + 1" by (simp add: powi_powr)
  show ?thesis using a b by linarith
qed

text \<open>The rounding of a number whose binade is known.\<close>

lemma round_to_eval:
  assumes "2 powi e \<le> \<bar>x\<bar>" and "\<bar>x\<bar> < 2 powi (e + 1)" and "emin \<le> e"
  shows "round_to p emin x = of_int (rne (x / 2 powi (e - int p + 1))) * 2 powi (e - int p + 1)"
proof -
  have "(0::real) < 2 powi e" by simp
  then have pos: "0 < \<bar>x\<bar>" using assms(1) by linarith
  have "expo \<bar>x\<bar> = e" using assms(1,2) by (rule expo_eq)
  then show ?thesis using pos assms(3) by (simp add: round_to_def Let_def max_def)
qed

text \<open>A number with at most \<open>p\<close> significant bits above the least unit is not changed.\<close>

lemma round_to_exact:
  assumes "x = of_int m * 2 powi e" and "\<bar>m\<bar> < 2 ^ p" and "emin - int p + 1 \<le> e"
  shows "round_to p emin x = x"
proof (cases "x = 0")
  case True
  then show ?thesis by (simp add: round_to_def)
next
  case False
  then have pos: "0 < \<bar>x\<bar>" by simp
  define L where "L = expo \<bar>x\<bar>"
  define E where "E = max L emin"
  have "2 powr of_int L \<le> \<bar>x\<bar>"
    using expo_bounds [OF pos] by (simp add: L_def powi_powr)
  also have "\<bar>x\<bar> = of_int \<bar>m\<bar> * 2 powi e" by (simp add: assms(1) abs_mult)
  also have "\<dots> < 2 ^ p * 2 powi e"
  proof -
    have "(of_int \<bar>m\<bar> :: real) < of_int (2 ^ p)" using assms(2) by (simp only: of_int_less_iff)
    then show ?thesis by simp
  qed
  also have "\<dots> = 2 powr (of_int (int p + e))"
    by (simp add: powi_powr powr_add powr_realpow)
  finally have "L < int p + e" by simp
  then have Ee: "E - int p + 1 \<le> e" using assms(3) by (simp add: E_def)
  define k where "k = nat (e - (E - int p + 1))"
  have split: "(2::real) powi e = 2 ^ k * 2 powi (E - int p + 1)"
  proof -
    have "e = int k + (E - int p + 1)" using Ee by (simp add: k_def)
    then have "(2::real) powi e = 2 powi (int k + (E - int p + 1))" by simp
    also have "\<dots> = 2 powi (int k) * 2 powi (E - int p + 1)" by (simp add: power_int_add)
    finally show ?thesis by simp
  qed
  have "x / 2 powi (E - int p + 1) = of_int (m * 2 ^ k)"
    by (simp add: assms(1) split)
  then have "rne (x / 2 powi (E - int p + 1)) = m * 2 ^ k" by (simp only: rne_of_int)
  then have "of_int (rne (x / 2 powi (E - int p + 1))) * 2 powi (E - int p + 1) = x"
    by (simp add: assms(1) split)
  then show ?thesis using False by (simp add: round_to_def Let_def E_def L_def)
qed

lemma DBL_MIN_pos: "0 < DBL_MIN"
  by (simp add: DBL_MIN_def)

lemma DBL_MIN_le_1: "DBL_MIN \<le> 1"
  by (simp add: DBL_MIN_def)

lemma DBL_MAX_ge: "2 ^ 1023 \<le> DBL_MAX"
proof -
  have "(1::real) \<le> 2 - 1 / 2 ^ 52" by simp
  then have "1 * (2 ^ 1023 :: real) \<le> (2 - 1 / 2 ^ 52) * 2 ^ 1023"
    by (intro mult_right_mono) auto
  then show ?thesis by (simp add: DBL_MAX_def)
qed

lemma DBL_MAX_gt_1: "1 < DBL_MAX"
proof -
  have "(1::real) < 2 ^ 1023" by simp
  then show ?thesis using DBL_MAX_ge by linarith
qed

lemma FLT_MAX_ge: "2 ^ 127 \<le> FLT_MAX"
proof -
  have "(1::real) \<le> 2 - 1 / 2 ^ 23" by simp
  then have "1 * (2 ^ 127 :: real) \<le> (2 - 1 / 2 ^ 23) * 2 ^ 127"
    by (intro mult_right_mono) auto
  then show ?thesis by (simp add: FLT_MAX_def)
qed

lemma fin_exact:
  assumes "x = of_int m * 2 powi e" and "\<bar>m\<bar> < 2 ^ 53" and "- 1074 \<le> e" and "\<bar>x\<bar> \<le> DBL_MAX"
  shows "fin x = Fin x"
proof -
  have "round_to 53 (- 1022) x = x"
    using assms(1,2,3) by (intro round_to_exact [of x m e]) simp_all
  moreover have "\<not> DBL_MAX < x" and "\<not> x < - DBL_MAX" using assms(4) by linarith+
  ultimately show ?thesis by (simp add: fin_def Let_def)
qed

declare double_to_float.simps(1) [simp del]

lemma float_exact:
  assumes "x = of_int m * 2 powi e" and "\<bar>m\<bar> < 2 ^ 24" and "- 149 \<le> e" and "\<bar>x\<bar> \<le> FLT_MAX"
  shows "double_to_float (Fin x) = Fin x"
proof -
  have "round_to 24 (- 126) x = x"
    using assms(1,2,3) by (intro round_to_exact [of x m e]) simp_all
  moreover have "\<not> FLT_MAX < x" and "\<not> x < - FLT_MAX" using assms(4) by linarith+
  ultimately show ?thesis by (simp add: double_to_float.simps Let_def)
qed

lemma fin_eval:
  assumes "2 powi e \<le> \<bar>x\<bar>" and "\<bar>x\<bar> < 2 powi (e + 1)" and "- 1022 \<le> e"
    and "y = of_int (rne (x / 2 powi (e - 52))) * 2 powi (e - 52)" and "\<bar>y\<bar> \<le> 2 ^ 1023"
  shows "fin x = Fin y"
proof -
  have "round_to 53 (- 1022) x = y"
    using round_to_eval [OF assms(1,2,3), of 53] assms(4) by simp
  moreover have "\<not> DBL_MAX < y" and "\<not> y < - DBL_MAX"
    using assms(5) DBL_MAX_ge by linarith+
  ultimately show ?thesis by (simp add: fin_def Let_def)
qed

lemma int_le_DBL_MAX:
  assumes "\<bar>k\<bar> \<le> 2 ^ 53"
  shows "\<bar>of_int k :: real\<bar> \<le> DBL_MAX"
proof -
  have "(of_int \<bar>k\<bar> :: real) \<le> of_int (2 ^ 53)" using assms by (simp only: of_int_le_iff)
  moreover have "(2 ^ 53 :: real) \<le> 2 ^ 1023" by simp
  ultimately show ?thesis using DBL_MAX_ge by simp
qed

lemma fin_int:
  assumes "\<bar>k\<bar> < 2 ^ 53"
  shows "fin (of_int k) = Fin (of_int k)"
  using assms int_le_DBL_MAX [of k] by (intro fin_exact [of _ k 0]) simp_all

lemma fin_dyadic:
  assumes "\<bar>k\<bar> < 2 ^ 53" and "n \<le> 1074"
  shows "fin (of_int k / 2 ^ n) = Fin (of_int k / 2 ^ n)"
proof -
  have "(1::real) \<le> 2 ^ n" by simp
  then have "\<bar>of_int k :: real\<bar> / 2 ^ n \<le> \<bar>of_int k\<bar> / 1"
    by (intro divide_left_mono) simp_all
  then have le: "\<bar>of_int k / 2 ^ n :: real\<bar> \<le> DBL_MAX"
    using assms(1) int_le_DBL_MAX [of k] by (simp add: abs_divide)
  have eq: "(of_int k / 2 ^ n :: real) = of_int k * 2 powi (- int n)"
    by (simp add: power_int_minus divide_inverse)
  show ?thesis
    by (rule fin_exact [OF eq assms(1) _ le]) (use assms(2) in simp)
qed

lemma fin_simps:
  "fin 0 = Fin 0"
  "fin 1 = Fin 1"
  "numeral n < (2 ^ 53 :: int) \<Longrightarrow> fin (numeral n) = Fin (numeral n)"
  "numeral n < (2 ^ 53 :: int) \<Longrightarrow> fin (- numeral n) = Fin (- numeral n)"
  "numeral n < (2 ^ 53 :: int) \<Longrightarrow> fin (numeral n / 2) = Fin (numeral n / 2)"
  "numeral n < (2 ^ 53 :: int) \<Longrightarrow> fin (- (numeral n / 2)) = Fin (- (numeral n / 2))"
  "fin (1 / 2) = Fin (1 / 2)"
  "fin (- (1 / 2)) = Fin (- (1 / 2))"
  "numeral n < (2 ^ 53 :: int) \<Longrightarrow> fin (numeral n / 4) = Fin (numeral n / 4)"
  using fin_int [of 0] fin_int [of 1] fin_int [of "numeral n"] fin_int [of "- numeral n"]
    fin_dyadic [of "numeral n" 1] fin_dyadic [of "- numeral n" 1]
    fin_dyadic [of 1 1] fin_dyadic [of "- 1" 1] fin_dyadic [of "numeral n" 2]
  by simp_all

lemma fin_DBL_MIN: "fin DBL_MIN = Fin DBL_MIN"
proof -
  have "DBL_MIN \<le> DBL_MAX" using DBL_MIN_le_1 DBL_MAX_gt_1 by linarith
  then show ?thesis
    using DBL_MIN_pos
    by (intro fin_exact [of _ 1 "- 1022"]) (simp_all add: DBL_MIN_def power_int_minus field_simps)
qed

lemma DBL_MAX_eq: "DBL_MAX = of_int (2 ^ 53 - 1) * 2 powi 971"
proof -
  have "(2 ^ 1023 :: real) = 2 ^ 52 * 2 ^ 971" by (simp only: power_add [symmetric]) simp
  then have "DBL_MAX = (2 - 1 / 2 ^ 52) * 2 ^ 52 * 2 ^ 971" by (simp add: DBL_MAX_def)
  also have "(2 - 1 / 2 ^ 52) * 2 ^ 52 = (2 ^ 53 - 1 :: real)" by (simp add: algebra_simps)
  finally show ?thesis by simp
qed

lemma fin_DBL_MAX: "fin DBL_MAX = Fin DBL_MAX"
proof -
  have "0 < DBL_MAX" using DBL_MAX_gt_1 by linarith
  then have "\<bar>DBL_MAX\<bar> \<le> DBL_MAX" by simp
  then show ?thesis
    by (intro fin_exact [OF DBL_MAX_eq]) simp_all
qed

section \<open>Evaluating the concrete grids\<close>

lemma ceiling_DBL_MIN: "\<lceil>DBL_MIN\<rceil> = 1"
  using DBL_MIN_pos DBL_MIN_le_1 by (simp add: ceiling_eq_iff)

lemma half_simps: "\<lceil>1 / 2 :: real\<rceil> = 1" "\<lfloor>1 / 2 :: real\<rfloor> = 0"
  by (simp_all add: ceiling_eq_iff floor_eq_iff)

lemma DBL_simps:
  "\<not> DBL_MIN < 0" "0 \<le> DBL_MIN" "0 < DBL_MIN" "DBL_MIN \<noteq> 0" "\<not> DBL_MAX \<le> 0" "\<not> DBL_MAX \<le> 1"
  using DBL_MIN_pos DBL_MAX_gt_1 by simp_all

lemma float_simps:
  "double_to_float (Fin 0) = Fin 0"
  "double_to_float (Fin 1) = Fin 1"
  "double_to_float (Fin (1 / 2)) = Fin (1 / 2)"
proof -
  have a: "(1::real) \<le> FLT_MAX" "(0::real) \<le> FLT_MAX" "(1 / 2::real) \<le> FLT_MAX"
    using FLT_MAX_ge by simp_all
  show "double_to_float (Fin 0) = Fin 0"
    using a by (intro float_exact [of _ 0 0]) simp_all
  show "double_to_float (Fin 1) = Fin 1"
    using a by (intro float_exact [of _ 1 0]) simp_all
  show "double_to_float (Fin (1 / 2)) = Fin (1 / 2)"
    using a by (intro float_exact [of _ 1 "- 1"]) simp_all
qed

lemma replicate_numeral: "replicate (numeral k) x = x # replicate (pred_numeral k) x"
  by (simp add: numeral_eq_Suc)

lemma copy_rows_numeral:
  "copy_rows (numeral k) old_width new_width old old_idx new_idx new =
     (case memcpy new new_idx old old_idx old_width of
        Inl e \<Rightarrow> Inl e
      | Inr new' \<Rightarrow>
          copy_rows (pred_numeral k) old_width new_width old
            (to_int (to_unsigned old_idx + old_width))
            (to_int (to_unsigned new_idx + new_width)) new')"
  by (simp add: numeral_eq_Suc)

lemmas grid_eval =
  resize_def covers_def GridMap_create_def GridMap_load_def clear_def fromMsg_def
  OccupancyGrid_new_def Vector3_zero_def pceil_def pfloor_def std_max_def expansion_def
  new_min_def new_max_def new_size_def reorganize_def new_grid_def
  start_index_def getGridMapIndex_def getGridMapCoords_def round_c_def trunc_def
  outside_def to_unsigned_def getGridMapIndex_coords_def to_int_def memcpy_def at_idx_def
  size_inv_def Let_def d_inf_def int_to_double_def replicate_numeral copy_rows_numeral
  DBL_simps ceiling_DBL_MIN half_simps fin_simps fin_DBL_MIN fin_DBL_MAX float_simps

lemma create_resize:
  "resize (GridMap_create ''map'' (Fin 1) (Fin 0)) Vector3_zero unit_point = Inr unit_grid"
  by (simp add: grid_eval unit_grid_def unit_point_def)

lemma unit_grid_covers: "covers unit_grid Vector3_zero unit_point"
  by (simp add: grid_eval unit_grid_def unit_point_def)

lemma far_resize:
  "resize (GridMap_load far_msg (Fin 0)) Vector3_zero Vector3_zero = Inr far_grid_resized"
  by (simp add: grid_eval far_msg_def far_grid_resized_def)

lemma padded_resize:
  "resize padded_grid Vector3_zero \<lparr>vx = Fin (3 / 2), vy = Fin 1, vz = Fin 0\<rparr> = Inr padded_grown"
  by (simp add: grid_eval padded_grid_def padded_grown_def)


lemma tiny_simps:
  "0 < tiny" "- tiny < 4" "\<not> 4 \<le> - tiny" "- tiny < 0" "\<not> 0 \<le> - tiny" "- tiny \<le> 0"
  "- tiny \<noteq> 0" "tiny \<noteq> 0" "\<not> tiny \<le> 0"
  by (simp_all add: tiny_def)

lemma fin_tiny: "fin (- tiny) = Fin (- tiny)"
  using fin_dyadic [of "- 1" 60] by (simp add: tiny_def)

lemma fin_4_tiny: "fin (4 + tiny) = Fin 4"
  unfolding tiny_def
  by (rule fin_eval [of 2]) (simp_all add: rne_def)

lemma ceiling_4_tiny: "\<lceil>4 + tiny\<rceil> = 5"
  by (simp add: ceiling_eq_iff tiny_def)




section \<open>Index and grid coordinates\<close>

text \<open>
  C7. For a grid with \<open>width > 0\<close> and \<open>height > 0\<close> and an index
  \<open>0 \<le> idx < width * height\<close> (an \<open>int\<close>, so below \<open>2^31\<close>), decoding the index
  with \<open>getGridMapCoords(map, idx, ...)\<close> succeeds with \<open>(idx mod width, idx div width)\<close>,
  and encoding these coordinates with \<open>getGridMapIndex(map, map_x, map_y, ...)\<close>
  succeeds and gives \<open>idx\<close> back.
\<close>

theorem index_roundtrip:
  assumes "0 < width m" and "0 < height m"
    and "0 \<le> idx" and "idx < int (width m * height m)" and "idx < 2 ^ 31"
  shows "getGridMapCoords_idx m idx = Inr (idx mod int (width m), idx div int (width m)) \<and>
         getGridMapIndex_coords m (idx mod int (width m)) (idx div int (width m)) = Inr idx"
proof -
  let ?w = "width m"
  define n where "n = nat idx"
  have idx: "idx = int n" using assms(3) by (simp add: n_def)
  have n31: "n < 2 ^ 31" using assms(5) idx by simp
  have n32: "n < 2 ^ 32" using n31 by simp
  have u: "to_unsigned idx = n" using assms(3) n32 idx by (simp add: to_unsigned_nonneg)
  have xlt: "n mod ?w < 2 ^ 31" using n31 by (meson le_less_trans mod_less_eq_dividend)
  have ylt: "n div ?w < 2 ^ 31" using n31 by (meson le_less_trans div_le_dividend)
  have ix: "to_int (n mod ?w) = int (n mod ?w)" using xlt by (rule to_int_small)
  have iy: "to_int (n div ?w) = int (n div ?w)" using ylt by (rule to_int_small)
  have ux: "to_unsigned (int (n mod ?w)) = n mod ?w" using xlt by (simp add: to_unsigned_nonneg)
  have uy: "to_unsigned (int (n div ?w)) = n div ?w" using ylt by (simp add: to_unsigned_nonneg)
  have "int n < int (?w * height m)" using assms(4) by (simp only: idx)
  then have nlt: "n < height m * ?w" by (simp only: of_nat_less_iff mult.commute)
  have yh: "n div ?w < height m" using nlt assms(1) by (simp add: less_mult_imp_div_less)
  have xw: "n mod ?w < ?w" using assms(1) by simp
  have out: "\<not> outside m (int (n mod ?w)) (int (n div ?w))"
    using xw yh by (simp add: outside_def ux uy not_le)
  have mx: "idx mod int ?w = int (n mod ?w)" by (simp add: idx zmod_int)
  have my: "idx div int ?w = int (n div ?w)" by (simp add: idx zdiv_int)
  have c: "getGridMapCoords_idx m idx = Inr (int (n mod ?w), int (n div ?w))"
    using assms(1) out by (simp add: getGridMapCoords_idx_def u ix iy Let_def)
  have "to_int (n mod ?w + n div ?w * ?w) = int n" using n31 by (simp add: to_int_small)
  then have i: "getGridMapIndex_coords m (int (n mod ?w)) (int (n div ?w)) = Inr idx"
    using out by (simp add: getGridMapIndex_coords_def ux uy idx)
  show ?thesis using c i by (simp only: mx my)
qed

theorem index_roundtrip_witness:
  "0 < width small_grid \<and> 0 < height small_grid \<and>
   (0::int) \<le> 4 \<and> 4 < int (width small_grid * height small_grid) \<and>
   getGridMapCoords_idx small_grid 4 = Inr (1, 1) \<and>
   getGridMapIndex_coords small_grid 1 1 = Inr 4"
  using index_roundtrip [of small_grid 4] by (simp add: small_grid_def)

section \<open>Decoding an index\<close>

lemma to_int_neg_iff: "n < 2 ^ 32 \<Longrightarrow> to_int n < 0 \<longleftrightarrow> 2 ^ 31 \<le> n"
  by (auto simp: to_int_def Let_def)

lemma to_unsigned_to_int: "n < 2 ^ 31 \<Longrightarrow> to_unsigned (to_int n) = n"
  by (simp add: to_int_small to_unsigned_nonneg)

lemma outside_to_int:
  assumes "a < 2 ^ 32" and "b < 2 ^ 32"
  shows "outside m (to_int a) (to_int b) \<longleftrightarrow>
         \<not> (a < 2 ^ 31 \<and> a < width m \<and> b < 2 ^ 31 \<and> b < height m)"
proof (cases "a < 2 ^ 31 \<and> b < 2 ^ 31")
  case True
  then show ?thesis
    using assms by (auto simp: outside_def to_int_neg_iff to_unsigned_to_int)
next
  case False
  then show ?thesis
    using assms by (auto simp: outside_def to_int_neg_iff)
qed

lemma decode_unsigned:
  assumes "0 < width m" and "to_unsigned idx = u" and "u < 2 ^ 32"
  shows "getGridMapCoords_idx m idx =
         (if u mod width m < 2 ^ 31 \<and> u div width m < 2 ^ 31 \<and> u div width m < height m
          then Inr (int (u mod width m), int (u div width m)) else Inl OutOfBounds)"
proof -
  have a: "u mod width m < 2 ^ 32"
    using assms(3) by (meson le_less_trans mod_less_eq_dividend)
  have b: "u div width m < 2 ^ 32"
    using assms(3) by (meson le_less_trans div_le_dividend)
  have c: "u mod width m < width m"
    using assms(1) by simp
  show ?thesis
    using assms(1) c
    by (simp add: getGridMapCoords_idx_def Let_def assms(2) outside_to_int [OF a b] to_int_small)
qed

text \<open>
  C9, as amended. On a grid with \<open>width > 0\<close>, \<open>getGridMapCoords(map, idx, ...)\<close>
  tests only the coordinates it derives, never \<open>idx\<close> itself. For \<open>idx \<ge> 0\<close> it
  fails with \<open>OutOfBounds\<close> exactly when \<open>gx = idx mod width\<close>, \<open>gy = idx div width\<close>
  are not in \<open>[0, width) \<times> [0, height)\<close>, and returns \<open>(gx, gy)\<close> otherwise. A
  negative \<open>idx\<close> is first converted to \<open>unsigned int\<close>: it is decoded as
  \<open>idx + 2^32\<close> and rejected only if a coordinate derived from that value is out of
  range. The index one past the end, \<open>width * height\<close>, fails with \<open>OutOfBounds\<close>.
\<close>

theorem index_decode:
  assumes "0 < width m" and "- (2 ^ 31) \<le> idx" and "idx < 2 ^ 31"
  shows
    "(0 \<le> idx \<longrightarrow>
        getGridMapCoords_idx m idx =
          (let gx = idx mod int (width m); gy = idx div int (width m)
           in if 0 \<le> gx \<and> gx < int (width m) \<and> 0 \<le> gy \<and> gy < int (height m)
              then Inr (gx, gy) else Inl OutOfBounds)) \<and>
     (idx < 0 \<longrightarrow>
        getGridMapCoords_idx m idx =
          (let gx = (idx + 2 ^ 32) mod int (width m); gy = (idx + 2 ^ 32) div int (width m)
           in if gx < 2 ^ 31 \<and> gy < 2 ^ 31 \<and> gy < int (height m)
              then Inr (gx, gy) else Inl OutOfBounds)) \<and>
     (int (width m * height m) < 2 ^ 31 \<longrightarrow>
        getGridMapCoords_idx m (int (width m * height m)) = Inl OutOfBounds)"
proof (intro conjI impI)
  assume nn: "0 \<le> idx"
  define n where "n = nat idx"
  have idx: "idx = int n" using nn by (simp add: n_def)
  have n31: "n < 2 ^ 31" using assms(3) idx by simp
  have u: "to_unsigned idx = n" using nn assms(3) by (simp add: to_unsigned_nonneg n_def)
  have x: "n mod width m < 2 ^ 31" using n31 by (meson le_less_trans mod_less_eq_dividend)
  have y: "n div width m < 2 ^ 31" using n31 by (meson le_less_trans div_le_dividend)
  have mx: "idx mod int (width m) = int (n mod width m)" by (simp add: idx zmod_int)
  have my: "idx div int (width m) = int (n div width m)" by (simp add: idx zdiv_int)
  have "n < 2 ^ 32" using n31 by simp
  from decode_unsigned [OF assms(1) u this]
  show "getGridMapCoords_idx m idx =
          (let gx = idx mod int (width m); gy = idx div int (width m)
           in if 0 \<le> gx \<and> gx < int (width m) \<and> 0 \<le> gy \<and> gy < int (height m)
              then Inr (gx, gy) else Inl OutOfBounds)"
    using x y assms(1) unfolding mx my Let_def by simp
next
  assume neg: "idx < 0"
  define n where "n = nat (idx + 2 ^ 32)"
  have pos: "0 \<le> idx + 2 ^ 32" using assms(2) by simp
  have idx: "idx + 2 ^ 32 = int n" using pos by (simp add: n_def)
  have "int n < 2 ^ 32" using neg unfolding idx [symmetric] by simp
  then have n32: "n < 2 ^ 32" by simp
  have u: "to_unsigned idx = n" using neg assms(2) by (simp add: to_unsigned_neg n_def)
  have mx: "(idx + 2 ^ 32) mod int (width m) = int (n mod width m)"
    unfolding idx by (simp add: zmod_int)
  have my: "(idx + 2 ^ 32) div int (width m) = int (n div width m)"
    unfolding idx by (simp add: zdiv_int)
  have cx: "int (n mod width m) < 2 ^ 31 \<longleftrightarrow> n mod width m < 2 ^ 31" by simp
  have cy: "int (n div width m) < 2 ^ 31 \<longleftrightarrow> n div width m < 2 ^ 31" by simp
  from decode_unsigned [OF assms(1) u n32]
  show "getGridMapCoords_idx m idx =
          (let gx = (idx + 2 ^ 32) mod int (width m); gy = (idx + 2 ^ 32) div int (width m)
           in if gx < 2 ^ 31 \<and> gy < 2 ^ 31 \<and> gy < int (height m)
              then Inr (gx, gy) else Inl OutOfBounds)"
    unfolding mx my Let_def cx cy by simp
next
  assume small: "int (width m * height m) < 2 ^ 31"
  let ?n = "width m * height m"
  have n31: "?n < 2 ^ 31" using small by (simp only: of_nat_less_numeral_power_cancel_iff)
  have n32: "?n < 2 ^ 32" using n31 by simp
  have u: "to_unsigned (int ?n) = ?n"
    using to_unsigned_nonneg [of "int ?n"] n32 by (simp del: of_nat_mult)
  have d: "?n div width m = height m" using assms(1) by simp
  from decode_unsigned [OF assms(1) u n32]
  show "getGridMapCoords_idx m (int ?n) = Inl OutOfBounds"
    unfolding d by simp
qed

theorem index_decode_witness:
  "0 < width small_grid \<and>
   getGridMapCoords_idx small_grid 5 = Inr (2, 1) \<and>
   getGridMapCoords_idx small_grid 6 = Inl OutOfBounds \<and>
   getGridMapCoords_idx small_grid (- 1) = Inl OutOfBounds"
  using index_decode [of small_grid 5] index_decode [of small_grid "- 1"]
  by (simp add: small_grid_def)

text \<open>
  C9 as stated fails on two inputs. For \<open>idx = -1\<close> on \<open>wide_msg\<close> the coordinates
  \<open>idx mod width = 65536\<close> and \<open>idx div width = -1\<close> are outside the grid, yet the
  call succeeds with \<open>(0, 65535)\<close>, the coordinates of \<open>2^32 - 1\<close>. On the grid that
  \<open>GridMap("map", 1, 0)\<close> makes, of width 0, the call divides by zero before any
  test, where the conversions from world and from grid coordinates do return
  \<open>OutOfBounds\<close>.
\<close>

theorem index_decode_counterexample:
  "(- 1 :: int) mod int (width wide_msg) = 65536 \<and>
   (- 1 :: int) div int (width wide_msg) = - 1 \<and>
   getGridMapCoords_idx wide_msg (- 1) = Inr (0, 65535) \<and>
   width (grid_map (GridMap_create ''map'' (Fin 1) (Fin 0))) = 0 \<and>
   getGridMapCoords_idx (grid_map (GridMap_create ''map'' (Fin 1) (Fin 0))) 0 =
     Inl UndefinedBehaviour \<and>
   getGridMapIndex_coords (grid_map (GridMap_create ''map'' (Fin 1) (Fin 0))) 0 0 =
     Inl OutOfBounds \<and>
   getGridMapCoords (grid_map (GridMap_create ''map'' (Fin 1) (Fin 0))) (Fin 0) (Fin 0) =
     Inl OutOfBounds"
  by (simp add: wide_msg_def getGridMapCoords_idx_def getGridMapIndex_coords_def
      getGridMapCoords_def outside_def to_unsigned_def to_int_def round_c_def trunc_def
      GridMap_create_def clear_def OccupancyGrid_new_def Let_def fin_simps float_simps)

section \<open>The structure of a resize\<close>

text \<open>
  A resize that is not a no-op returns exactly when the two sizes, the start index and
  the row copy are defined, and then with the state of lines 134 to 166.
\<close>

lemma resize_Inr:
  assumes "\<not> covers g mn mx" and "resize g mn mx = Inr g'"
  obtains w h new_idx d where
    "new_size (vx (new_max g mx)) (vx (new_min g mn)) (resolution (grid_map g)) = Inr w"
    and "new_size (vy (new_max g mx)) (vy (new_min g mn)) (resolution (grid_map g)) = Inr h"
    and "start_index (new_grid (grid_map g) (new_min g mn) w h) (grid_map g) = Inr new_idx"
    and "copy_rows (height (grid_map g)) (width (grid_map g)) w (data (grid_map g)) 0 new_idx
           (replicate ((w * h) mod 2 ^ 32) INT8_MIN) = Inr d"
    and "g' = g\<lparr>grid_map := (new_grid (grid_map g) (new_min g mn) w h)\<lparr>data := d\<rparr>,
                  min_vec := new_min g mn, max_vec := new_max g mx\<rparr>"
  using assms
  by (auto simp: resize_def reorganize_def Let_def new_grid_def
      split: if_splits sum.splits)

lemma resize_returns:
  assumes "\<not> covers g mn mx"
    and "new_size (vx (new_max g mx)) (vx (new_min g mn)) (resolution (grid_map g)) = Inr w"
    and "new_size (vy (new_max g mx)) (vy (new_min g mn)) (resolution (grid_map g)) = Inr h"
    and "start_index (new_grid (grid_map g) (new_min g mn) w h) (grid_map g) = Inr new_idx"
    and "copy_rows (height (grid_map g)) (width (grid_map g)) w (data (grid_map g)) 0 new_idx
           (replicate ((w * h) mod 2 ^ 32) INT8_MIN) = Inr d"
  shows "resize g mn mx =
           Inr (g\<lparr>grid_map := (new_grid (grid_map g) (new_min g mn) w h)\<lparr>data := d\<rparr>,
                  min_vec := new_min g mn, max_vec := new_max g mx\<rparr>)"
  using assms by (simp add: resize_def reorganize_def Let_def new_grid_def)

lemma resize_covers:
  assumes "covers g mn mx"
  shows "resize g mn mx = Inr g"
  using assms by (simp add: resize_def)

lemma copy_rows_no_source:
  "copy_rows rows old_width new_width [] old_idx new_idx new = Inr d \<Longrightarrow> d = new"
proof (induction rows arbitrary: old_idx new_idx)
  case 0
  then show ?case by simp
next
  case (Suc rows)
  then show ?case
    by (cases "old_width = 0") (auto simp: memcpy_def split: sum.splits)
qed

lemma sint_INT8_MIN: "sint INT8_MIN = - 128"
  by (simp add: INT8_MIN_def)

text \<open>
  The first resize of a grid made by \<open>GridMap(frame_id, r, mes)\<close>, to the single point
  \<open>(0, 0)\<close>, returns for every resolution that is a non-zero number as a \<open>float\<close>: one
  unknown cell at the origin.
\<close>

lemma first_resize_returns:
  assumes "double_to_float (Fin r) = Fin r'" and "r' \<noteq> 0"
  shows "resize (GridMap_create frame_id (Fin r) mes) Vector3_zero Vector3_zero =
           Inr \<lparr>grid_map =
                  \<lparr>header_frame_id = frame_id, header_seq = 0, resolution = Fin r', width = 1,
                   height = 1, origin = \<lparr>vx = Fin 0, vy = Fin 0, vz = Fin 0\<rparr>,
                   data = [INT8_MIN]\<rparr>,
                min_vec = \<lparr>vx = Fin 0, vy = Fin 0, vz = Fin DBL_MAX\<rparr>,
                max_vec = \<lparr>vx = Fin 0, vy = Fin 0, vz = Fin DBL_MIN\<rparr>,
                min_expansion_size = pceil mes (Fin r)\<rparr>"
  using assms by (simp add: grid_eval)

section \<open>The row copy\<close>

text \<open>
  What a row copy that returns has done: each \<open>memcpy\<close> was inside both buffers, the
  indices advanced without wrapping, the cells below the start index are untouched and
  row \<open>r\<close> of the old buffer lies at \<open>new_idx + r * new_width\<close>.
\<close>

lemma memcpy_Inr:
  assumes "memcpy dst di src si n = Inr d" and "0 < n"
  shows "0 \<le> di \<and> 0 \<le> si \<and> nat di + n \<le> length dst \<and> nat si + n \<le> length src \<and>
         d = take (nat di) dst @ take n (drop (nat si) src) @ drop (nat di + n) dst"
  using assms by (auto simp: memcpy_def split: if_splits)

lemma memcpy_nth_below:
  assumes "memcpy dst di src si n = Inr d" and "0 < n" and "p < nat di"
  shows "d ! p = dst ! p"
proof -
  from memcpy_Inr [OF assms(1,2)] have
    d: "d = take (nat di) dst @ take n (drop (nat si) src) @ drop (nat di + n) dst"
    and len: "nat di + n \<le> length dst"
    by simp_all
  show ?thesis
    unfolding d using assms(3) len by (simp add: nth_append)
qed

lemma memcpy_nth_copied:
  assumes "memcpy dst di src si n = Inr d" and "c < n"
  shows "d ! (nat di + c) = src ! (nat si + c)"
proof -
  have n: "0 < n" using assms(2) by simp
  from memcpy_Inr [OF assms(1) n] have
    d: "d = take (nat di) dst @ take n (drop (nat si) src) @ drop (nat di + n) dst"
    and len: "nat di + n \<le> length dst" and lens: "nat si + n \<le> length src"
    by simp_all
  show ?thesis
    unfolding d using assms(2) len lens by (simp add: nth_append)
qed

lemma memcpy_length: "memcpy dst di src si n = Inr d \<Longrightarrow> length d = length dst"
  by (auto simp: memcpy_def split: if_splits)

lemma copy_rows_length:
  "copy_rows rows old_width new_width old old_idx new_idx new = Inr d \<Longrightarrow> length d = length new"
proof (induction rows arbitrary: old_idx new_idx new)
  case 0
  then show ?case by simp
next
  case (Suc rows)
  then show ?case
    by (auto split: sum.splits dest: memcpy_length)
qed

lemma idx_bound: "0 \<le> (i::int) \<Longrightarrow> nat i + (w::nat) \<le> n \<Longrightarrow> n < 2 ^ 31 \<Longrightarrow> i < 2 ^ 31"
  by simp

lemma next_index:
  assumes "0 \<le> i" and "i < 2 ^ 31" and "w < 2 ^ 31"
    and "0 \<le> to_int (to_unsigned i + w)"
  shows "to_int (to_unsigned i + w) = i + int w"
proof -
  have u: "to_unsigned i = nat i"
    using assms(1,2) by (simp add: to_unsigned_nonneg)
  have lt: "nat i + w < 2 ^ 32"
    using assms(1-3) by simp
  have "nat i + w < 2 ^ 31"
  proof (rule ccontr)
    assume "\<not> nat i + w < 2 ^ 31"
    then have "to_int (nat i + w) = int (nat i + w) - 2 ^ 32"
      using lt by (simp add: to_int_big)
    then show False
      using assms(1,4) lt unfolding u by simp
  qed
  then show ?thesis
    unfolding u using assms(1) by (simp add: to_int_small)
qed

lemma copy_rows_Suc_Inr:
  assumes "copy_rows (Suc n) w w' old oi ni new = Inr d" and "0 < w"
  obtains new1 where "memcpy new ni old oi w = Inr new1"
    and "copy_rows n w w' old (to_int (to_unsigned oi + w)) (to_int (to_unsigned ni + w')) new1 = Inr d"
    and "0 \<le> oi" and "0 \<le> ni" and "nat ni + w \<le> length new" and "nat oi + w \<le> length old"
  using assms by (auto split: sum.splits dest: memcpy_Inr)

lemma copy_rows_frame:
  assumes "copy_rows n w w' old oi ni new = Inr d"
    and "0 < w" and "w \<le> w'" and "w' < 2 ^ 31" and "length new < 2 ^ 31"
    and "p < nat ni"
  shows "d ! p = new ! p"
  using assms(1,5,6)
proof (induction n arbitrary: oi ni new)
  case 0
  then show ?case by simp
next
  case (Suc n)
  from copy_rows_Suc_Inr [OF Suc.prems(1) assms(2)] obtain new1 where
    m: "memcpy new ni old oi w = Inr new1"
    and r: "copy_rows n w w' old (to_int (to_unsigned oi + w)) (to_int (to_unsigned ni + w')) new1 = Inr d"
    and ni: "0 \<le> ni" "nat ni + w \<le> length new"
    by metis
  have l1: "length new1 = length new"
    using m by (auto simp: memcpy_def split: if_splits)
  have p1: "new1 ! p = new ! p"
    using memcpy_nth_below [OF m assms(2) Suc.prems(3)] .
  show ?case
  proof (cases n)
    case 0
    then show ?thesis using r p1 by simp
  next
    case (Suc k)
    from copy_rows_Suc_Inr [OF r [unfolded Suc] assms(2)]
    have nn: "0 \<le> to_int (to_unsigned ni + w')"
      by metis
    have "ni < 2 ^ 31"
      using ni Suc.prems(2) by (rule idx_bound)
    then have nx: "to_int (to_unsigned ni + w') = ni + int w'"
      using next_index [OF ni(1) _ assms(4) nn] by simp
    have "p < nat (to_int (to_unsigned ni + w'))"
      unfolding nx using Suc.prems(3) ni(1) by linarith
    from Suc.IH [OF r _ this] l1 Suc.prems(2) p1 show ?thesis
      by simp
  qed
qed

lemma copy_rows_nth:
  assumes "copy_rows n w w' old oi ni new = Inr d"
    and "0 < w" and "w \<le> w'" and "w' < 2 ^ 31"
    and "length new < 2 ^ 31" and "length old < 2 ^ 31"
    and "r < n" and "c < w"
  shows "0 \<le> oi \<and> 0 \<le> ni \<and> d ! (nat ni + r * w' + c) = old ! (nat oi + r * w + c)"
  using assms(1,5,7)
proof (induction n arbitrary: oi ni new r)
  case 0
  then show ?case by simp
next
  case (Suc n)
  from copy_rows_Suc_Inr [OF Suc.prems(1) assms(2)] obtain new1 where
    m: "memcpy new ni old oi w = Inr new1"
    and rest: "copy_rows n w w' old (to_int (to_unsigned oi + w)) (to_int (to_unsigned ni + w')) new1 = Inr d"
    and oi: "0 \<le> oi" "nat oi + w \<le> length old"
    and ni: "0 \<le> ni" "nat ni + w \<le> length new"
    by metis
  have l1: "length new1 = length new"
    using m by (auto simp: memcpy_def split: if_splits)
  have w0: "0 < w'" using assms(2,3) by simp
  show ?case
  proof (cases n)
    case 0
    then have r0: "r = 0" using Suc.prems(3) by simp
    have "d = new1" using rest 0 by simp
    then show ?thesis
      using memcpy_nth_copied [OF m assms(8)] oi ni r0 by simp
  next
    case (Suc k)
    from copy_rows_Suc_Inr [OF rest [unfolded Suc] assms(2)]
    have nn: "0 \<le> to_int (to_unsigned ni + w')" and on: "0 \<le> to_int (to_unsigned oi + w)"
      by metis+
    have "ni < 2 ^ 31"
      using ni Suc.prems(2) by (rule idx_bound)
    then have nx: "to_int (to_unsigned ni + w') = ni + int w'"
      using next_index [OF ni(1) _ assms(4) nn] by simp
    have "oi < 2 ^ 31"
      using oi assms(6) by (rule idx_bound)
    moreover have "w < 2 ^ 31"
      using assms(3,4) by simp
    ultimately have ox: "to_int (to_unsigned oi + w) = oi + int w"
      using next_index [OF oi(1) _ _ on] by simp
    have nnat: "nat (ni + int w') = nat ni + w'" and onat: "nat (oi + int w) = nat oi + w"
      using ni(1) oi(1) by (simp_all add: nat_add_distrib)
    show ?thesis
    proof (cases r)
      case 0
      have below: "nat ni + c < nat (to_int (to_unsigned ni + w'))"
        unfolding nx nnat using assms(3,8) by simp
      have "d ! (nat ni + c) = new1 ! (nat ni + c)"
        using copy_rows_frame [OF rest assms(2,3,4) _ below] l1 Suc.prems(2) by simp
      then show ?thesis
        using memcpy_nth_copied [OF m assms(8)] oi ni 0 by simp
    next
      case (Suc q)
      then have q: "q < n" using Suc.prems(3) by simp
      have "length new1 < 2 ^ 31" using l1 Suc.prems(2) by simp
      from Suc.IH [OF rest this q]
      have "d ! (nat (ni + int w') + q * w' + c) = old ! (nat (oi + int w) + q * w + c)"
        unfolding nx ox by simp
      then show ?thesis
        unfolding nnat onat Suc using oi ni by (simp add: algebra_simps)
    qed
  qed
qed


section \<open>Resize: the no-op test\<close>

text \<open>
  C6. When the tracked bounds cover the requested box on x and y, \<open>resize\<close> returns at
  once, without allocating, and the whole state (message, bounds, expansion size) is
  unchanged; so a second call with the same box finds the same state, is a no-op too,
  and changes nothing either. The test only compares doubles.
\<close>

theorem resize_covered_noop:
  assumes "covers g mn mx"
  shows "resize g mn mx = Inr g \<and>
         (case resize g mn mx of Inl e \<Rightarrow> False | Inr g1 \<Rightarrow> g1 = g \<and> resize g1 mn mx = Inr g)"
  using assms by (simp add: resize_covers)

theorem resize_covered_noop_witness:
  "covers unit_grid Vector3_zero unit_point \<and>
   resize unit_grid Vector3_zero unit_point = Inr unit_grid \<and>
   resize unit_grid \<lparr>vx = Fin (1 / 2), vy = Fin (1 / 2), vz = Fin 5\<rparr> unit_point = Inr unit_grid"
  using resize_covered_noop [of unit_grid Vector3_zero unit_point]
    resize_covered_noop [of unit_grid "\<lparr>vx = Fin (1 / 2), vy = Fin (1 / 2), vz = Fin 5\<rparr>" unit_point]
  by (simp add: covers_def unit_grid_def unit_point_def Vector3_zero_def)

section \<open>Resize: growth of a grid with cells\<close>

lemma shifted_from_create:
  "resize (GridMap_create ''map'' (Fin 1) (Fin 0)) \<lparr>vx = Fin 4, vy = Fin 0, vz = Fin 0\<rparr>
     \<lparr>vx = Fin 5, vy = Fin 1, vz = Fin 0\<rparr> =
     Inr (shifted_grid\<lparr>grid_map := (grid_map shifted_grid)\<lparr>data := replicate 4 INT8_MIN\<rparr>\<rparr>)"
  by (simp add: grid_eval shifted_grid_def)

lemma shifted_resize:
  "resize shifted_grid \<lparr>vx = Fin (- tiny), vy = Fin 0, vz = Fin 0\<rparr>
     \<lparr>vx = Fin 5, vy = Fin 1, vz = Fin 0\<rparr> = Inr shifted_grown"
  by (simp add: grid_eval shifted_grid_def shifted_grown_def tiny_simps fin_4_tiny)

text \<open>
  The numbers of \<open>fine_grid\<close>: 0.05 and 0.1 as doubles, 0.05 as a \<open>float\<close>, the
  expansion size that the constructor stores and the rounding of the deficit \<open>1/16\<close>
  to the stored resolution.
\<close>

lemma fin_0_05: "fin (1 / 20) = Fin dbl_0_05"
  unfolding dbl_0_05_def
  by (rule fin_eval [of "- 5"]) (simp_all add: rne_def)

lemma fin_0_1: "fin (1 / 10) = Fin dbl_0_1"
  unfolding dbl_0_1_def
  by (rule fin_eval [of "- 4"]) (simp_all add: rne_def)

lemma float_0_05: "double_to_float (Fin dbl_0_05) = Fin flt_0_05"
proof -
  have "round_to 24 (- 126) dbl_0_05 = flt_0_05"
    unfolding dbl_0_05_def flt_0_05_def
    by (subst round_to_eval [of "- 5"]) (simp_all add: rne_def)
  moreover have "flt_0_05 \<le> FLT_MAX" "- FLT_MAX \<le> flt_0_05"
    using FLT_MAX_ge by (simp_all add: flt_0_05_def)
  ultimately show ?thesis by (simp add: double_to_float.simps Let_def)
qed


lemma fin_dbl_0_1: "fin dbl_0_1 = Fin dbl_0_1"
  unfolding dbl_0_1_def using fin_dyadic [of 3602879701896397 55] by simp

lemma fin_twice_flt: "fin (2 * flt_0_05) = Fin (2 * flt_0_05)"
  unfolding flt_0_05_def using fin_dyadic [of 13421773 27] by simp

lemma pceil_0_1: "pceil (Fin dbl_0_1) (Fin dbl_0_05) = Fin dbl_0_1"
proof -
  have q: "dbl_0_1 / dbl_0_05 = 2" and p: "2 * dbl_0_05 = dbl_0_1" and n: "dbl_0_05 \<noteq> 0"
    by (simp_all add: dbl_0_1_def dbl_0_05_def)
  show ?thesis
    by (simp add: pceil_def q p n fin_simps fin_dbl_0_1)
qed

lemma quotient_sixteenth: "\<exists>q. fin (1 / 16 / flt_0_05) = Fin q \<and> \<lceil>q\<rceil> = 2"
proof -
  have "fin (1 / 16 / flt_0_05) =
      Fin (of_int (rne (1 / 16 / flt_0_05 / 2 powi (0 - 52))) * 2 powi (0 - 52))"
    unfolding flt_0_05_def
    by (rule fin_eval [of 0]) (simp_all add: rne_def)
  moreover have "\<lceil>of_int (rne (1 / 16 / flt_0_05 / 2 powi (0 - 52))) * 2 powi (0 - 52) :: real\<rceil> = 2"
    unfolding flt_0_05_def by (simp add: rne_def ceiling_eq_iff)
  ultimately show ?thesis by blast
qed

lemma pceil_sixteenth: "pceil (Fin (1 / 16)) (Fin flt_0_05) = Fin (2 * flt_0_05)"
proof -
  obtain q where q: "fin (1 / 16 / flt_0_05) = Fin q" "\<lceil>q\<rceil> = 2"
    using quotient_sixteenth by blast
  have n: "flt_0_05 \<noteq> 0" by (simp add: flt_0_05_def)
  show ?thesis
    using q n by (simp add: pceil_def fin_twice_flt)
qed

lemma fin_sixteenth: "fin (1 / 16) = Fin (1 / 16)"
  using fin_dyadic [of 1 4] by simp

lemma fine_simps:
  "flt_0_05 \<noteq> 0" "\<not> 2 * flt_0_05 < dbl_0_1" "dbl_0_1 < 2 * flt_0_05" "1 / 16 < dbl_0_1"
  "dbl_0_05 \<noteq> 0" "1 < dbl_0_1 * 16"
  by (simp_all add: flt_0_05_def dbl_0_1_def dbl_0_05_def)

lemma fine_from_create:
  "resize (GridMap_create ''map'' (Fin dbl_0_05) (Fin dbl_0_1)) Vector3_zero Vector3_zero =
     Inr (fine_grid\<lparr>grid_map := (grid_map fine_grid)\<lparr>data := [INT8_MIN]\<rparr>\<rparr>)"
  using first_resize_returns [OF float_0_05 fine_simps(1), of "''map''" "Fin dbl_0_1"]
  by (simp add: fine_grid_def pceil_0_1)

lemma fine_resize:
  "resize fine_grid Vector3_zero \<lparr>vx = Fin (1 / 16), vy = Fin 0, vz = Fin 0\<rparr> = Inr fine_grown"
  by (simp add: grid_eval fine_grid_def fine_grown_def fine_simps fin_sixteenth pceil_sixteenth
      fin_twice_flt del: pceil_def)

text \<open>
  C3, as amended. On a grid with cells whose bounds do not cover the requested box,
  lines 124 to 131 move each edge that the box exceeds to the double nearest to the edge
  minus (for \<open>min\<close>) or plus (for \<open>max\<close>) the amount
  \<open>std::max(pceil(deficit, resolution), min_expansion_size)\<close>, where the deficit is the
  double nearest to the difference between the edge and the request and \<open>pceil\<close> is
  computed in doubles, and leave every other edge where it was; these are the bounds of
  the grid when the call returns. The amount is the larger of
  \<open>pceil(deficit, resolution)\<close> and \<open>min_expansion_size\<close> when both are finite, so it
  is \<open>min_expansion_size\<close> whenever the rounded deficit is not larger, and it is
  \<open>pceil(deficit, resolution)\<close> when \<open>min_expansion_size\<close> is NaN.
\<close>

theorem resize_growth:
  assumes "data (grid_map g) \<noteq> []" and "\<not> covers g mn mx"
  shows
    "vx (new_min g mn) =
       (if d_less (vx mn) (vx (min_vec g))
        then d_sub (vx (min_vec g)) (expansion g (d_sub (vx (min_vec g)) (vx mn)))
        else vx (min_vec g)) \<and>
     vy (new_min g mn) =
       (if d_less (vy mn) (vy (min_vec g))
        then d_sub (vy (min_vec g)) (expansion g (d_sub (vy (min_vec g)) (vy mn)))
        else vy (min_vec g)) \<and>
     vx (new_max g mx) =
       (if d_less (vx (max_vec g)) (vx mx)
        then d_add (vx (max_vec g)) (expansion g (d_sub (vx mx) (vx (max_vec g))))
        else vx (max_vec g)) \<and>
     vy (new_max g mx) =
       (if d_less (vy (max_vec g)) (vy mx)
        then d_add (vy (max_vec g)) (expansion g (d_sub (vy mx) (vy (max_vec g))))
        else vy (max_vec g)) \<and>
     (\<forall>g'. resize g mn mx = Inr g' \<longrightarrow>
        min_vec g' = new_min g mn \<and> max_vec g' = new_max g mx) \<and>
     (\<forall>d p e. pceil d (resolution (grid_map g)) = Fin p \<and> min_expansion_size g = Fin e \<longrightarrow>
        expansion g d = Fin (max p e)) \<and>
     (\<forall>d. min_expansion_size g = NaN \<longrightarrow> expansion g d = pceil d (resolution (grid_map g)))"
proof -
  have stored: "min_vec g' = new_min g mn \<and> max_vec g' = new_max g mx"
    if "resize g mn mx = Inr g'" for g'
  proof -
    from resize_Inr [OF assms(2) that] obtain w h d where
      "g' = g\<lparr>grid_map := (new_grid (grid_map g) (new_min g mn) w h)\<lparr>data := d\<rparr>,
                min_vec := new_min g mn, max_vec := new_max g mx\<rparr>"
      by metis
    then show ?thesis by simp
  qed
  have larger: "std_max (Fin p) (Fin e) = Fin (max p e)" for p e
    by (simp add: std_max_def max_def)
  have nan: "std_max a NaN = a" for a
    by (cases a) (simp_all add: std_max_def)
  show ?thesis
    using assms(1) stored larger nan
    by (simp add: new_min_def new_max_def Let_def expansion_def)
qed

theorem resize_growth_witness:
  "data (grid_map padded_grid) \<noteq> [] \<and>
   \<not> covers padded_grid Vector3_zero \<lparr>vx = Fin (3 / 2), vy = Fin 1, vz = Fin 0\<rparr> \<and>
   resize padded_grid Vector3_zero \<lparr>vx = Fin (3 / 2), vy = Fin 1, vz = Fin 0\<rparr> = Inr padded_grown \<and>
   d_sub (Fin (3 / 2)) (vx (max_vec padded_grid)) = Fin (1 / 2) \<and>
   pceil (Fin (1 / 2)) (resolution (grid_map padded_grid)) = Fin 1 \<and>
   min_expansion_size padded_grid = Fin 2 \<and>
   expansion padded_grid (Fin (1 / 2)) = Fin 2 \<and>
   vx (max_vec padded_grown) = Fin 3 \<and>
   vy (max_vec padded_grown) = vy (max_vec padded_grid) \<and>
   min_vec padded_grown = min_vec padded_grid"
  using resize_growth [of padded_grid Vector3_zero "\<lparr>vx = Fin (3 / 2), vy = Fin 1, vz = Fin 0\<rparr>"]
    padded_resize
  by (simp add: grid_eval padded_grid_def padded_grown_def)

text \<open>
  C3 as stated fails in double arithmetic. \<open>shifted_grid\<close> has its \<open>min.x\<close> edge at 4
  and no minimum expansion; a request that reaches \<open>x = -tiny\<close> exceeds the edge by
  \<open>4 + tiny\<close>, which the specification's formula rounds up to 5 cells, so that the edge
  would move to \<open>-1\<close>. The subtraction of line 125 gives the double 4, the edge moves by
  4 to \<open>0\<close>, and the requested \<open>x\<close> is still below the new edge. On \<open>fine_grid\<close>
  the minimum expansion size is the double 0.1, a multiple of the double 0.05 that the
  constructor was given, but the message stores the resolution as a \<open>float\<close>, which is
  larger: a request that exceeds the \<open>max.x\<close> edge by \<open>1/16\<close>, less than the minimum
  expansion size, moves the edge by two stored cells, which is more than the minimum
  expansion size.
\<close>

theorem resize_growth_counterexample:
  "data (grid_map shifted_grid) \<noteq> [] \<and>
   \<not> covers shifted_grid \<lparr>vx = Fin (- tiny), vy = Fin 0, vz = Fin 0\<rparr>
       \<lparr>vx = Fin 5, vy = Fin 1, vz = Fin 0\<rparr> \<and>
   resize shifted_grid \<lparr>vx = Fin (- tiny), vy = Fin 0, vz = Fin 0\<rparr>
     \<lparr>vx = Fin 5, vy = Fin 1, vz = Fin 0\<rparr> = Inr shifted_grown \<and>
   vx (min_vec shifted_grid) = Fin 4 \<and>
   vx (min_vec shifted_grown) = Fin 0 \<and>
   4 - spec_expansion (4 - (- tiny)) 1 0 = - 1 \<and>
   d_less (Fin (- tiny)) (vx (min_vec shifted_grown)) \<and>
   data (grid_map fine_grid) \<noteq> [] \<and>
   \<not> covers fine_grid Vector3_zero \<lparr>vx = Fin (1 / 16), vy = Fin 0, vz = Fin 0\<rparr> \<and>
   min_expansion_size fine_grid = Fin dbl_0_1 \<and>
   d_sub (Fin (1 / 16)) (vx (max_vec fine_grid)) = Fin (1 / 16) \<and>
   d_less (Fin (1 / 16)) (min_expansion_size fine_grid) \<and>
   resize fine_grid Vector3_zero \<lparr>vx = Fin (1 / 16), vy = Fin 0, vz = Fin 0\<rparr> = Inr fine_grown \<and>
   vx (max_vec fine_grid) = Fin 0 \<and>
   vx (max_vec fine_grown) = Fin (2 * flt_0_05) \<and>
   d_less (min_expansion_size fine_grid) (vx (max_vec fine_grown))"
  using shifted_resize fine_resize
  by (simp add: covers_def shifted_grid_def shifted_grown_def spec_expansion_def tiny_simps
      ceiling_4_tiny fine_grid_def fine_grown_def fine_simps fin_sixteenth Vector3_zero_def)

section \<open>Resize: the first allocation\<close>

text \<open>
  The first allocation on a grid without cells, when the bounds do not already cover
  the box and the call returns: bounds snapped with \<open>pfloor\<close> and \<open>pceil\<close>, origin at
  the new minimum, the sizes of lines 146 and 147, every cell \<open>-128\<close>.
\<close>

lemma resize_empty:
  assumes "data (grid_map g) = []" and "\<not> covers g mn mx" and "resize g mn mx = Inr g'"
  shows
    "vx (min_vec g') = pfloor (vx mn) (resolution (grid_map g)) \<and>
     vy (min_vec g') = pfloor (vy mn) (resolution (grid_map g)) \<and>
     vx (max_vec g') = pceil (vx mx) (resolution (grid_map g)) \<and>
     vy (max_vec g') = pceil (vy mx) (resolution (grid_map g)) \<and>
     vx (origin (grid_map g')) = vx (min_vec g') \<and>
     vy (origin (grid_map g')) = vy (min_vec g') \<and>
     resolution (grid_map g') = resolution (grid_map g) \<and>
     new_size (vx (max_vec g')) (vx (min_vec g')) (resolution (grid_map g)) =
       Inr (width (grid_map g')) \<and>
     new_size (vy (max_vec g')) (vy (min_vec g')) (resolution (grid_map g)) =
       Inr (height (grid_map g')) \<and>
     length (data (grid_map g')) = (width (grid_map g') * height (grid_map g')) mod 2 ^ 32 \<and>
     (\<forall>c \<in> set (data (grid_map g')). sint c = - 128)"
proof -
  from resize_Inr [OF assms(2,3)] obtain w h new_idx d where
    w: "new_size (vx (new_max g mx)) (vx (new_min g mn)) (resolution (grid_map g)) = Inr w"
    and h: "new_size (vy (new_max g mx)) (vy (new_min g mn)) (resolution (grid_map g)) = Inr h"
    and c: "copy_rows (height (grid_map g)) (width (grid_map g)) w (data (grid_map g)) 0 new_idx
              (replicate ((w * h) mod 2 ^ 32) INT8_MIN) = Inr d"
    and g': "g' = g\<lparr>grid_map := (new_grid (grid_map g) (new_min g mn) w h)\<lparr>data := d\<rparr>,
                min_vec := new_min g mn, max_vec := new_max g mx\<rparr>"
    by metis
  have d: "d = replicate ((w * h) mod 2 ^ 32) INT8_MIN"
    using c unfolding assms(1) by (rule copy_rows_no_source)
  have bmin: "min_vec g' = new_min g mn" and bmax: "max_vec g' = new_max g mx"
    by (simp_all add: g')
  have gm: "grid_map g' = (new_grid (grid_map g) (new_min g mn) w h)\<lparr>data := d\<rparr>"
    by (simp add: g')
  have bounds:
    "vx (new_min g mn) = pfloor (vx mn) (resolution (grid_map g))"
    "vy (new_min g mn) = pfloor (vy mn) (resolution (grid_map g))"
    "vx (new_max g mx) = pceil (vx mx) (resolution (grid_map g))"
    "vy (new_max g mx) = pceil (vy mx) (resolution (grid_map g))"
    using assms(1) by (simp_all add: new_min_def new_max_def Let_def)
  have cells: "\<forall>c \<in> set d. sint c = - 128"
    unfolding d by (simp add: sint_INT8_MIN)
  show ?thesis
    unfolding bmin bmax gm
    using w h cells
    by (simp add: new_grid_def bounds d)
qed

lemma padded_from_create:
  "resize (GridMap_create ''map'' (Fin 1) (Fin 2)) Vector3_zero unit_point =
     Inr (padded_grid\<lparr>grid_map := (grid_map padded_grid)\<lparr>data := replicate 4 INT8_MIN\<rparr>\<rparr>)"
  by (simp add: grid_eval padded_grid_def unit_point_def)

text \<open>
  C4. \<open>padded_grid\<close> is \<open>GridMap("map", 1, 2)\<close> after a resize to the box from
  \<open>(0, 0)\<close> to \<open>(1, 1)\<close> and four cell writes. After \<open>clear\<close> its buffer is empty and
  its width and height are still 2. The same resize again takes the branch for an empty
  buffer and allocates four cells of \<open>-128\<close>, but then runs the row loop over the stale
  size: each \<open>memcpy\<close> reads two bytes out of the empty old buffer, so the call does not
  deliver a buffer of unknown cells.
\<close>

theorem resize_after_clear_copies_stale_rows:
  "data (grid_map (clear padded_grid)) = [] \<and>
   width (grid_map (clear padded_grid)) = 2 \<and> height (grid_map (clear padded_grid)) = 2 \<and>
   \<not> covers (clear padded_grid) Vector3_zero unit_point \<and>
   new_grid (grid_map (clear padded_grid)) (new_min (clear padded_grid) Vector3_zero) 2 2 =
     \<lparr>header_frame_id = ''map'', header_seq = 0, resolution = Fin 1, width = 2, height = 2,
      origin = \<lparr>vx = Fin 0, vy = Fin 0, vz = Fin 0\<rparr>,
      data = [INT8_MIN, INT8_MIN, INT8_MIN, INT8_MIN]\<rparr> \<and>
   memcpy [INT8_MIN, INT8_MIN, INT8_MIN, INT8_MIN] 0 (data (grid_map (clear padded_grid))) 0
     (width (grid_map (clear padded_grid))) = Inl UndefinedBehaviour \<and>
   resize (clear padded_grid) Vector3_zero unit_point = Inl UndefinedBehaviour"
  by (simp add: grid_eval padded_grid_def unit_point_def)

section \<open>Construction and reset\<close>

lemma create_expansion_size:
  "min_expansion_size (GridMap_create frame_id res mes) = pceil mes res"
  by (simp add: GridMap_create_def clear_def)

lemma pceil_zero_step: "pceil x (Fin 0) = NaN"
  by (cases x) (simp_all add: pceil_def d_inf_def)

lemma load_expansion_size: "min_expansion_size (GridMap_load m mes) = NaN"
  by (simp add: GridMap_load_def fromMsg_def clear_def OccupancyGrid_new_def pceil_zero_step)

text \<open>
  C5. The constructor from a message rounds the expansion size with the resolution of
  the message it has just allocated, which is zero, and not with the resolution of the
  message it loads: for \<open>small_grid\<close> (resolution 1/2) and for \<open>far_msg\<close>
  (resolution 1) with the argument 5/4 the stored value is NaN, where rounding up to a
  multiple of the resolution gives 3/2 and 2; the constructor from a resolution stores
  3/2 for the resolution 1/2.
\<close>

theorem load_ignores_resolution:
  "min_expansion_size (GridMap_load small_grid (Fin (5 / 4))) = NaN \<and>
   min_expansion_size (GridMap_load far_msg (Fin (5 / 4))) = NaN \<and>
   pceil (Fin (5 / 4)) (resolution small_grid) = Fin (3 / 2) \<and>
   pceil (Fin (5 / 4)) (resolution far_msg) = Fin 2 \<and>
   min_expansion_size (GridMap_create ''map'' (resolution small_grid) (Fin (5 / 4))) = Fin (3 / 2)"
  by (simp add: grid_eval small_grid_def far_msg_def)

text \<open>
  The other operations and \<open>width * height = length data\<close>: the constructor from a
  resolution establishes it, the constructor from a message takes it over from the
  message, and a resize that returns establishes it when the product of the new sizes
  fits an \<open>unsigned int\<close>.
\<close>

lemma size_inv_create: "size_inv (GridMap_create frame_id res mes)"
  by (simp add: size_inv_def GridMap_create_def clear_def)

lemma size_inv_load: "size_inv (GridMap_load m mes) \<longleftrightarrow> width m * height m = length (data m)"
  by (simp add: size_inv_def GridMap_load_def fromMsg_def)

lemma size_inv_resize:
  assumes "\<not> covers g mn mx" and "resize g mn mx = Inr g'"
    and "width (grid_map g') * height (grid_map g') < 2 ^ 32"
  shows "size_inv g'"
proof -
  from resize_Inr [OF assms(1,2)] obtain w h new_idx d where
    c: "copy_rows (height (grid_map g)) (width (grid_map g)) w (data (grid_map g)) 0 new_idx
              (replicate ((w * h) mod 2 ^ 32) INT8_MIN) = Inr d"
    and g': "g' = g\<lparr>grid_map := (new_grid (grid_map g) (new_min g mn) w h)\<lparr>data := d\<rparr>,
                min_vec := new_min g mn, max_vec := new_max g mx\<rparr>"
    by metis
  have "length d = (w * h) mod 2 ^ 32"
    using copy_rows_length [OF c] by simp
  moreover have "w * h < 2 ^ 32"
    using assms(3) by (simp add: g' new_grid_def)
  ultimately show ?thesis
    by (simp add: size_inv_def g' new_grid_def)
qed

text \<open>
  C2. \<open>clear\<close> empties the buffer and leaves width and height as they were: on the grid
  of two by two cells that a first resize made, \<open>width * height = length data\<close> holds
  before \<open>clear\<close> and fails after it. The next resize then copies two rows of two bytes
  out of the empty old buffer.
\<close>

theorem clear_breaks_size_inv:
  "resize (GridMap_create ''map'' (Fin 1) (Fin 0)) Vector3_zero unit_point = Inr unit_grid \<and>
   size_inv unit_grid \<and>
   \<not> size_inv (clear unit_grid) \<and>
   resize (clear unit_grid) Vector3_zero unit_point = Inl UndefinedBehaviour"
  using create_resize by (simp add: grid_eval unit_grid_def unit_point_def)

section \<open>Grid and world coordinates\<close>




section \<open>Resize after loading a message\<close>

text \<open>
  C1. \<open>GridMap(far_msg, 0)\<close> holds the value 7 at the world point \<open>(10, 10)\<close>; its
  bounds are \<open>min = (10, 10)\<close> from the origin and \<open>max = DBL_MIN\<close> left by
  \<open>clear\<close>. A resize to the single point \<open>(0, 0)\<close> returns a grid of two by two
  cells at the origin \<open>(0, 0)\<close>: the world point \<open>(10, 10)\<close> is outside it, and the
  value 7 is now read at the world point \<open>(0, 0)\<close>.
\<close>

theorem resize_after_load_misplaces:
  "getGridMapIndex (grid_map (GridMap_load far_msg (Fin 0))) (Fin 10) (Fin 10) = Inr 0 \<and>
   at_idx (GridMap_load far_msg (Fin 0)) 0 = Inr 7 \<and>
   resize (GridMap_load far_msg (Fin 0)) Vector3_zero Vector3_zero = Inr far_grid_resized \<and>
   getGridMapIndex (grid_map far_grid_resized) (Fin 10) (Fin 10) = Inl OutOfBounds \<and>
   getGridMapIndex (grid_map far_grid_resized) (Fin 0) (Fin 0) = Inr 0 \<and>
   at_idx far_grid_resized 0 = Inr 7"
  using far_resize by (simp add: grid_eval far_msg_def far_grid_resized_def)

text \<open>
  C10. In that resize the old buffer is not empty, the call reallocates, and the
  conversion of the old origin \<open>(10, 10)\<close> into the new geometry fails with
  \<open>OutOfBounds\<close>; the ignored result leaves the destination index at 0.
\<close>

theorem old_origin_outside_new_grid:
  "data (grid_map (GridMap_load far_msg (Fin 0))) \<noteq> [] \<and>
   \<not> covers (GridMap_load far_msg (Fin 0)) Vector3_zero Vector3_zero \<and>
   new_size (vx (new_max (GridMap_load far_msg (Fin 0)) Vector3_zero))
     (vx (new_min (GridMap_load far_msg (Fin 0)) Vector3_zero))
     (resolution (grid_map (GridMap_load far_msg (Fin 0)))) = Inr 2 \<and>
   new_size (vy (new_max (GridMap_load far_msg (Fin 0)) Vector3_zero))
     (vy (new_min (GridMap_load far_msg (Fin 0)) Vector3_zero))
     (resolution (grid_map (GridMap_load far_msg (Fin 0)))) = Inr 2 \<and>
   getGridMapIndex
     (new_grid (grid_map (GridMap_load far_msg (Fin 0)))
        (new_min (GridMap_load far_msg (Fin 0)) Vector3_zero) 2 2)
     (vx (origin (grid_map (GridMap_load far_msg (Fin 0)))))
     (vy (origin (grid_map (GridMap_load far_msg (Fin 0))))) = Inl OutOfBounds \<and>
   start_index
     (new_grid (grid_map (GridMap_load far_msg (Fin 0)))
        (new_min (GridMap_load far_msg (Fin 0)) Vector3_zero) 2 2)
     (grid_map (GridMap_load far_msg (Fin 0))) = Inr 0"
  by (simp add: grid_eval far_msg_def)

end
